theory Spec2Isabelle
  imports Main
begin

section \<open>Values shared by every operation\<close>

text \<open>
  Byte strings are lists of 8-bit characters.  A Python exception that is an instance of
  \<open>Exception\<close> is represented by the text \<open>str(e)\<close> that the handlers of the package
  print.  Signals that derive from \<open>BaseException\<close> only (keyboard interrupt, interpreter
  exit) are outside the model: no handler of the package is written for them.
\<close>

type_synonym bytes = string

datatype exn = PyException string

fun str_exn :: "exn \<Rightarrow> string" where
  "str_exn (PyException m) = m"

datatype log_level = DEBUG | INFO | WARNING | ERROR

text \<open>
  A caller-supplied PDF source: \<open>isinstance(file, str)\<close>, an object with a callable
  \<open>read\<close> (held in the store of stream objects and named by its address),
  \<open>isinstance(file, bytes)\<close>, or anything else.
\<close>

datatype pdf_source = PathSrc string | StreamSrc nat | BytesSrc bytes | OtherSrc

text \<open>
  The three shapes an operation returns: the destination path, a byte buffer, or the tuple
  \<open>(flag, message)\<close>.  The message of the tuple is whatever the code puts there, which
  for \<open>validate_pdf\<close>'s second component may be \<open>None\<close>.
\<close>

datatype result = RPath string | RBytes bytes | RPair bool "string option"

subsection \<open>Stream objects\<close>

text \<open>
  A file-like object: its content, its cursor, the optional \<open>size\<close> attribute, and the
  exception that \<open>read\<close> raises when the object cannot be read (for instance a handle
  that was not opened for reading).
\<close>

record stream =
  s_data :: bytes
  s_pos :: nat
  s_size :: "int option"
  s_read_error :: "exn option"

subsection \<open>The mutable world\<close>

record world =
  files :: "string \<Rightarrow> bytes option"
  streams :: "nat \<Rightarrow> stream"
  logs :: "(log_level \<times> string) list"
  tmp_counter :: nat

definition log_msg :: "log_level \<Rightarrow> string \<Rightarrow> world \<Rightarrow> world" where
  "log_msg lvl m w = w\<lparr>logs := logs w @ [(lvl, m)]\<rparr>"

definition tell :: "nat \<Rightarrow> world \<Rightarrow> nat" where
  "tell h w = s_pos (streams w h)"

definition seek :: "nat \<Rightarrow> nat \<Rightarrow> world \<Rightarrow> world" where
  "seek h p w = w\<lparr>streams := (streams w)(h := (streams w h)\<lparr>s_pos := p\<rparr>)\<rparr>"

text \<open>\<open>file.read(n)\<close> and \<open>file.read()\<close> (\<open>None\<close> for the count) from the cursor.\<close>

definition stream_read :: "nat \<Rightarrow> nat option \<Rightarrow> world \<Rightarrow> (exn + bytes) \<times> world" where
  "stream_read h n w =
     (let s = streams w h in
      case s_read_error s of
        Some e \<Rightarrow> (Inl e, w)
      | None \<Rightarrow>
          (let rest = drop (s_pos s) (s_data s);
               chunk = (case n of None \<Rightarrow> rest | Some k \<Rightarrow> take k rest)
           in (Inr chunk, seek h (s_pos s + length chunk) w)))"

subsection \<open>Pages, readers and writers of the delegate libraries\<close>

type_synonym page = bytes
type_synonym cell = "string option"
type_synonym table = "cell list list"

text \<open>A pandas \<open>DataFrame\<close>: the column labels, when given, and the rows.\<close>

type_synonym frame = "cell list option \<times> table"

text \<open>
  What the code observes of a \<open>PdfReader\<close>: \<open>reader.pages\<close> (which may raise, for
  instance on a document that has not been decrypted) and \<open>reader.is_encrypted\<close>.
\<close>

record reader =
  r_pages :: "exn + page list"
  r_is_encrypted :: bool

record writer =
  w_pages :: "page list"
  w_encryption :: "(string option \<times> string) option"

definition PdfWriter :: writer where
  "PdfWriter = \<lparr>w_pages = [], w_encryption = None\<rparr>"

text \<open>
  The delegate libraries and the failure behaviour of the operating system are parameters:
  nothing is assumed of them, and every call into them may raise.  A \<open>PdfReader\<close> built
  on a caller's stream keeps that stream: \<open>reader_cursor\<close> is where its constructor
  leaves the cursor (whether it returns or raises), and \<open>lazy_cursor\<close> is where the reads
  it makes later, when its pages are walked, leave it (\<open>None\<close> when it reads no more).
\<close>

record engine =
  mime_from_buffer :: "bytes \<Rightarrow> exn + string"
  pdf_reader :: "bytes \<Rightarrow> exn + reader"
  reader_cursor :: "bytes \<Rightarrow> nat"
  lazy_cursor :: "bytes \<Rightarrow> nat option"
  add_page :: "writer \<Rightarrow> page \<Rightarrow> exn + writer"
  replace_images :: "int \<Rightarrow> page \<Rightarrow> exn + page"
  compress_content_streams :: "int \<Rightarrow> page \<Rightarrow> exn + page"
  compress_identical_objects :: "bool \<Rightarrow> bool \<Rightarrow> writer \<Rightarrow> exn + writer"
  writer_write :: "writer \<Rightarrow> exn + bytes"
  writer_append :: "writer \<Rightarrow> bytes \<Rightarrow> exn + writer"
  writer_encrypt :: "writer \<Rightarrow> string option \<Rightarrow> string \<Rightarrow> exn + writer"
  reader_decrypt :: "reader \<Rightarrow> string option \<Rightarrow> exn + reader"
  pdfplumber_installed :: bool
  pdfplumber_open :: "bytes \<Rightarrow> exn + page list"
  extract_tables :: "page \<Rightarrow> exn + table list"
  data_frame :: "table \<Rightarrow> cell list option \<Rightarrow> exn + frame"
  pd_concat :: "frame list \<Rightarrow> exn + frame"
  to_excel :: "frame \<Rightarrow> exn + bytes"
  pdf2docx_installed :: bool
  pdf2docx_convert :: "bytes \<Rightarrow> int \<Rightarrow> int option \<Rightarrow> exn + bytes"
  open_read_error :: "string \<Rightarrow> exn option"
  open_write_error :: "string \<Rightarrow> exn option"
  remove_error :: "string \<Rightarrow> exn option"
  temp_write_error :: "string \<Rightarrow> exn option"
  mktemp :: "nat \<Rightarrow> string \<Rightarrow> exn + string"

subsection \<open>Files\<close>

text \<open>\<open>open(path, 'rb')\<close> followed by \<open>read(n)\<close> or \<open>read()\<close>.\<close>

definition read_file :: "engine \<Rightarrow> string \<Rightarrow> nat option \<Rightarrow> world \<Rightarrow> exn + bytes" where
  "read_file eng p n w =
     (case open_read_error eng p of
        Some e \<Rightarrow> Inl e
      | None \<Rightarrow>
          (case files w p of
             None \<Rightarrow> Inl (PyException (''[Errno 2] No such file or directory: '' @ p))
           | Some b \<Rightarrow> Inr (case n of None \<Rightarrow> b | Some k \<Rightarrow> take k b)))"

definition getsize :: "string \<Rightarrow> world \<Rightarrow> exn + int" where
  "getsize p w =
     (case files w p of
        None \<Rightarrow> Inl (PyException (''[Errno 2] No such file or directory: '' @ p))
      | Some b \<Rightarrow> Inr (int (length b)))"

section \<open>validators.py\<close>

definition MAX_FILE_SIZE :: int where
  "MAX_FILE_SIZE = 30 * 1024 * 1024"

definition ALLOWED_MIME_TYPES :: "string list" where
  "ALLOWED_MIME_TYPES = [''application/pdf'']"

definition validate_pdf_mime :: "engine \<Rightarrow> bytes \<Rightarrow> exn + bool" where
  "validate_pdf_mime eng file_content =
     (case mime_from_buffer eng (take 1024 file_content) of
        Inl e \<Rightarrow> Inl e
      | Inr file_mime_type \<Rightarrow> Inr (file_mime_type \<in> set ALLOWED_MIME_TYPES))"

definition validate_pdf_size :: "int \<Rightarrow> int \<Rightarrow> bool" where
  "validate_pdf_size file_size max_size = (file_size \<le> max_size)"

text \<open>
  Every caller in the package uses the default \<open>max_size\<close>, for which the formatted
  figure \<open>max_size / (1024 * 1024):.2f\<close> is \<open>30.00\<close>.
\<close>

definition size_message :: string where
  "size_message = ''File size exceeds the maximum limit of 30.00 MB''"

text \<open>The body of \<open>validate_pdf\<close> inside its \<open>try\<close>.\<close>

definition validate_pdf_body ::
  "engine \<Rightarrow> pdf_source \<Rightarrow> world \<Rightarrow> (exn + bool \<times> string option) \<times> world" where
  "validate_pdf_body eng file w =
     (case file of
        PathSrc p \<Rightarrow>
          (if files w p = None then (Inr (False, Some (''File not found: '' @ p)), w)
           else case getsize p w of
             Inl e \<Rightarrow> (Inl e, w)
           | Inr file_size \<Rightarrow>
               if \<not> validate_pdf_size file_size MAX_FILE_SIZE then (Inr (False, Some size_message), w)
               else (case read_file eng p (Some 1024) w of
                  Inl e \<Rightarrow> (Inl e, w)
                | Inr content \<Rightarrow>
                    (case validate_pdf_mime eng content of
                       Inl e \<Rightarrow> (Inl e, w)
                     | Inr ok \<Rightarrow>
                         if \<not> ok then (Inr (False, Some ''File is not a valid PDF''), w)
                         else (Inr (True, None), w))))
      | StreamSrc h \<Rightarrow>
          (if (case s_size (streams w h) of
                 Some file_size \<Rightarrow> \<not> validate_pdf_size file_size MAX_FILE_SIZE
               | None \<Rightarrow> False)
           then (Inr (False, Some size_message), w)
           else
             (let current_pos = tell h w;
                  w1 = seek h 0 w
              in case stream_read h (Some 1024) w1 of
                   (Inl e, w2) \<Rightarrow> (Inl e, w2)
                 | (Inr content, w2) \<Rightarrow>
                     (let w3 = seek h current_pos w2
                      in case validate_pdf_mime eng content of
                           Inl e \<Rightarrow> (Inl e, w3)
                         | Inr ok \<Rightarrow>
                             if \<not> ok then (Inr (False, Some ''File is not a valid PDF''), w3)
                             else (Inr (True, None), w3))))
      | BytesSrc b \<Rightarrow>
          (if \<not> validate_pdf_size (int (length b)) MAX_FILE_SIZE
           then (Inr (False, Some size_message), w)
           else case validate_pdf_mime eng (take 1024 b) of
                  Inl e \<Rightarrow> (Inl e, w)
                | Inr ok \<Rightarrow>
                    if \<not> ok then (Inr (False, Some ''Content is not a valid PDF''), w)
                    else (Inr (True, None), w))
      | OtherSrc \<Rightarrow> (Inr (False, Some ''Unsupported file type''), w))"

definition validate_pdf ::
  "engine \<Rightarrow> pdf_source \<Rightarrow> world \<Rightarrow> (bool \<times> string option) \<times> world" where
  "validate_pdf eng file w =
     (case validate_pdf_body eng file w of
        (Inr r, w') \<Rightarrow> (r, w')
      | (Inl e, w') \<Rightarrow> ((False, Some (''Error validating PDF: '' @ str_exn e)), w'))"

section \<open>Control flow shared by the operations\<close>

definition bind_exn :: "exn + 'a \<Rightarrow> ('a \<Rightarrow> exn + 'b) \<Rightarrow> exn + 'b" where
  "bind_exn m f = (case m of Inl e \<Rightarrow> Inl e | Inr x \<Rightarrow> f x)"

text \<open>A \<open>for\<close> loop whose body may raise: the first exception ends the loop.\<close>

primrec fold_exn :: "('a \<Rightarrow> 'b \<Rightarrow> exn + 'a) \<Rightarrow> 'b list \<Rightarrow> 'a \<Rightarrow> exn + 'a" where
  "fold_exn f [] acc = Inr acc"
| "fold_exn f (x # xs) acc = bind_exn (f acc x) (fold_exn f xs)"

primrec map_exn :: "('b \<Rightarrow> exn + 'c) \<Rightarrow> 'b list \<Rightarrow> exn + 'c list" where
  "map_exn f [] = Inr []"
| "map_exn f (x # xs) =
     bind_exn (f x) (\<lambda>y. bind_exn (map_exn f xs) (\<lambda>ys. Inr (y # ys)))"

text \<open>Python truthiness of an optional string: \<open>None\<close> and \<open>""\<close> are false.\<close>

fun truthy :: "string option \<Rightarrow> bool" where
  "truthy None = False"
| "truthy (Some s) = (s \<noteq> [])"

text \<open>
  The \<open>try: ... except Exception as e:\<close> frame around each operation: an exception of
  the body is logged at level \<open>ERROR\<close> and becomes the tuple \<open>(False, prefix + str(e))\<close>.
  The value is a sum so that an exception leaving the operation would be visible as
  \<open>Inl\<close>.
\<close>

definition catch_all ::
  "string \<Rightarrow> (exn + result) \<times> world \<Rightarrow> (exn + result) \<times> world" where
  "catch_all prefix r =
     (case r of
        (Inr v, w) \<Rightarrow> (Inr v, w)
      | (Inl e, w) \<Rightarrow>
          (let error_msg = prefix @ str_exn e
           in (Inr (RPair False (Some error_msg)), log_msg ERROR error_msg w)))"

text \<open>Decimal text of an integer, as an f-string prints it.\<close>

fun show_nat :: "nat \<Rightarrow> string" where
  "show_nat n =
     (if n < 10 then [char_of (48 + n)]
      else show_nat (n div 10) @ [char_of (48 + n mod 10)])"

declare show_nat.simps [simp del]

definition show_int :: "int \<Rightarrow> string" where
  "show_int i = (if i < 0 then CHR ''-'' # show_nat (nat (- i)) else show_nat (nat i))"

text \<open>\<open>str\<close> of an optional message inside an f-string.\<close>

fun py_str :: "string option \<Rightarrow> string" where
  "py_str None = ''None''"
| "py_str (Some s) = s"

text \<open>
  The block that compress, encrypt and decrypt repeat verbatim: build a \<open>PdfReader\<close>
  from the source.  \<open>Inr None\<close> is the early return \<open>False, "Unsupported input type"\<close>.
  For a stream the code takes the cursor, seeks to 0, builds the reader on the stream itself
  and seeks back; when the reader raises, the seek back is not reached.
\<close>

definition open_reader ::
  "engine \<Rightarrow> pdf_source \<Rightarrow> world \<Rightarrow> (exn + reader option) \<times> world" where
  "open_reader eng input_pdf w =
     (case input_pdf of
        PathSrc p \<Rightarrow>
          (case bind_exn (read_file eng p None w) (pdf_reader eng) of
             Inl e \<Rightarrow> (Inl e, w)
           | Inr rd \<Rightarrow> (Inr (Some rd), log_msg INFO (''Reading PDF from file: '' @ p) w))
      | StreamSrc h \<Rightarrow>
          (let current_pos = tell h w;
               w1 = seek h 0 w
           in case s_read_error (streams w1 h) of
                Some e \<Rightarrow> (Inl e, w1)
              | None \<Rightarrow>
                  (let content = s_data (streams w1 h);
                       w2 = seek h (reader_cursor eng content) w1
                   in case pdf_reader eng content of
                        Inl e \<Rightarrow> (Inl e, w2)
                      | Inr rd \<Rightarrow>
                          (Inr (Some rd),
                           log_msg INFO ''Reading PDF from file-like object''
                             (seek h current_pos w2))))
      | BytesSrc b \<Rightarrow>
          (case pdf_reader eng b of
             Inl e \<Rightarrow> (Inl e, w)
           | Inr rd \<Rightarrow> (Inr (Some rd), log_msg INFO ''Reading PDF from bytes'' w))
      | OtherSrc \<Rightarrow> (Inr None, w))"

text \<open>
  \<open>reader.pages\<close>: the pages, or the exception the reader raises for them.  A reader
  built on the caller's stream reads from that stream now, after the cursor was put back.
\<close>

definition reader_pages ::
  "engine \<Rightarrow> pdf_source \<Rightarrow> reader \<Rightarrow> world \<Rightarrow> (exn + page list) \<times> world" where
  "reader_pages eng input_pdf rd w =
     (r_pages rd,
      case input_pdf of
        StreamSrc h \<Rightarrow>
          (case lazy_cursor eng (s_data (streams w h)) of
             None \<Rightarrow> w
           | Some p \<Rightarrow> seek h p w)
      | _ \<Rightarrow> w)"

text \<open>
  The block that compress, merge, encrypt and decrypt end with: write the writer to
  \<open>output_path\<close> when one is given, to a buffer otherwise.  \<open>open(path, 'wb')\<close>
  truncates the file before anything is written.
\<close>

definition save_output ::
  "engine \<Rightarrow> writer \<Rightarrow> string option \<Rightarrow> string \<Rightarrow> string \<Rightarrow> world
     \<Rightarrow> (exn + result) \<times> world" where
  "save_output eng wr output_path saved_msg done_msg w =
     (if truthy output_path then
        (let p = the output_path in
         case open_write_error eng p of
           Some e \<Rightarrow> (Inl e, w)
         | None \<Rightarrow>
             (let w1 = w\<lparr>files := (files w)(p \<mapsto> [])\<rparr> in
              case writer_write eng wr of
                Inl e \<Rightarrow> (Inl e, w1)
              | Inr data \<Rightarrow>
                  (Inr (RPath p),
                   log_msg INFO (saved_msg @ p) (w1\<lparr>files := (files w1)(p \<mapsto> data)\<rparr>))))
      else
        (case writer_write eng wr of
           Inl e \<Rightarrow> (Inl e, w)
         | Inr data \<Rightarrow> (Inr (RBytes data), log_msg INFO done_msg w)))"

section \<open>compressor.py\<close>

definition clamp_level :: "int \<Rightarrow> int" where
  "clamp_level compression_level = min (max 1 compression_level) 10"

definition engine_level :: "int \<Rightarrow> int" where
  "engine_level compression_level =
     (let compression_level = clamp_level compression_level
      in if compression_level < 5 then compression_level * 2 else 9)"

definition compress_body ::
  "engine \<Rightarrow> pdf_source \<Rightarrow> string option \<Rightarrow> int \<Rightarrow> world \<Rightarrow> (exn + result) \<times> world" where
  "compress_body eng input_pdf output_path compression_level w =
     (case validate_pdf eng input_pdf w of
        ((is_valid, error_message), w1) \<Rightarrow>
          if \<not> is_valid then
            (Inr (RPair False error_message),
             log_msg ERROR (''Validation failed: '' @ py_str error_message) w1)
          else
            (let compress_level = engine_level compression_level;
                 w2 = log_msg DEBUG (''Using compression level: '' @ show_int compress_level) w1
             in case open_reader eng input_pdf w2 of
                  (Inl e, w3) \<Rightarrow> (Inl e, w3)
                | (Inr None, w3) \<Rightarrow> (Inr (RPair False (Some ''Unsupported input type'')), w3)
                | (Inr (Some rd), w3) \<Rightarrow>
                    (case reader_pages eng input_pdf rd w3 of
                       (pages_result, w4) \<Rightarrow>
                         (case bind_exn pages_result (\<lambda>pages.
                               bind_exn (fold_exn (add_page eng) pages PdfWriter) (\<lambda>wr.
                               bind_exn (map_exn (\<lambda>pg. bind_exn (replace_images eng 60 pg)
                                                    (compress_content_streams eng compress_level))
                                           (w_pages wr)) (\<lambda>pgs.
                               compress_identical_objects eng False True
                                 (wr\<lparr>w_pages := pgs\<rparr>)))) of
                            Inl e \<Rightarrow> (Inl e, w4)
                          | Inr wr \<Rightarrow>
                              save_output eng wr output_path ''Compressed PDF saved to: ''
                                ''PDF compression completed successfully'' w4))))"

definition compress ::
  "engine \<Rightarrow> pdf_source \<Rightarrow> string option \<Rightarrow> int \<Rightarrow> world \<Rightarrow> (exn + result) \<times> world" where
  "compress eng input_pdf output_path compression_level w =
     catch_all ''An error occurred during compression: ''
       (compress_body eng input_pdf output_path compression_level w)"

section \<open>merger.py\<close>

text \<open>The first loop of \<open>merge\<close>: the index and message of the first input that fails.\<close>

fun validate_all ::
  "engine \<Rightarrow> pdf_source list \<Rightarrow> nat \<Rightarrow> world \<Rightarrow> (nat \<times> string option) option \<times> world" where
  "validate_all eng [] i w = (None, w)"
| "validate_all eng (pdf # rest) i w =
     (case validate_pdf eng pdf w of
        ((is_valid, error_message), w1) \<Rightarrow>
          if \<not> is_valid then (Some (i, error_message), w1)
          else validate_all eng rest (Suc i) w1)"

text \<open>
  One iteration of the second loop, inside its own \<open>try\<close>.  \<open>Inr None\<close> is the early
  return for an unsupported input.
\<close>

definition append_one ::
  "engine \<Rightarrow> writer \<Rightarrow> nat \<Rightarrow> pdf_source \<Rightarrow> world \<Rightarrow> (exn + writer option) \<times> world" where
  "append_one eng merger i pdf w =
     (case pdf of
        PathSrc p \<Rightarrow>
          (let w1 = log_msg INFO (''Adding PDF #'' @ show_nat (i + 1) @ '' from file: '' @ p) w
           in case bind_exn (read_file eng p None w1) (writer_append eng merger) of
                Inl e \<Rightarrow> (Inl e, w1)
              | Inr m \<Rightarrow> (Inr (Some m), w1))
      | StreamSrc h \<Rightarrow>
          (let current_pos = tell h w;
               w1 = seek h 0 w
           in case stream_read h None w1 of
                (Inl e, w2) \<Rightarrow> (Inl e, w2)
              | (Inr content, w2) \<Rightarrow>
                  (case writer_append eng merger content of
                     Inl e \<Rightarrow> (Inl e, w2)
                   | Inr m \<Rightarrow>
                       (Inr (Some m),
                        log_msg INFO (''Adding PDF #'' @ show_nat (i + 1) @ '' from file-like object'')
                          (seek h current_pos w2))))
      | BytesSrc b \<Rightarrow>
          (case writer_append eng merger b of
             Inl e \<Rightarrow> (Inl e, w)
           | Inr m \<Rightarrow>
               (Inr (Some m),
                log_msg INFO (''Adding PDF #'' @ show_nat (i + 1) @ '' from bytes'') w))
      | OtherSrc \<Rightarrow> (Inr None, w))"

text \<open>The second loop: \<open>Inl\<close> is a value returned from inside the loop.\<close>

fun append_all ::
  "engine \<Rightarrow> pdf_source list \<Rightarrow> nat \<Rightarrow> writer \<Rightarrow> world \<Rightarrow> (result + writer) \<times> world" where
  "append_all eng [] i merger w = (Inr merger, w)"
| "append_all eng (pdf # rest) i merger w =
     (case append_one eng merger i pdf w of
        (Inl e, w1) \<Rightarrow>
          (let m = ''Error adding PDF #'' @ show_nat (i + 1) @ '': '' @ str_exn e
           in (Inl (RPair False (Some m)), log_msg ERROR m w1))
      | (Inr None, w1) \<Rightarrow>
          (Inl (RPair False (Some (''Unsupported input type for PDF #'' @ show_nat (i + 1)))), w1)
      | (Inr (Some merger'), w1) \<Rightarrow> append_all eng rest (Suc i) merger' w1)"

definition merge_body ::
  "engine \<Rightarrow> pdf_source list \<Rightarrow> string option \<Rightarrow> world \<Rightarrow> (exn + result) \<times> world" where
  "merge_body eng input_pdfs output_path w =
     (if input_pdfs = [] then
        (Inr (RPair False (Some ''No PDF files provided for merging'')),
         log_msg ERROR ''No PDF files provided for merging'' w)
      else if length input_pdfs < 2 then
        (Inr (RPair False (Some ''At least two PDF files are required for merging'')),
         log_msg ERROR ''At least two PDF files are required for merging'' w)
      else
        (case validate_all eng input_pdfs 0 w of
           (Some (i, error_message), w1) \<Rightarrow>
             (let m = ''Validation failed for PDF #'' @ show_nat (i + 1) @ '': ''
                        @ py_str error_message
              in (Inr (RPair False (Some m)), log_msg ERROR m w1))
         | (None, w1) \<Rightarrow>
             (case append_all eng input_pdfs 0 PdfWriter w1 of
                (Inl r, w2) \<Rightarrow> (Inr r, w2)
              | (Inr merger, w2) \<Rightarrow>
                  save_output eng merger output_path ''Merged PDF saved to: ''
                    ''PDF merging completed successfully'' w2)))"

definition merge ::
  "engine \<Rightarrow> pdf_source list \<Rightarrow> string option \<Rightarrow> world \<Rightarrow> (exn + result) \<times> world" where
  "merge eng input_pdfs output_path w =
     catch_all ''An error occurred during PDF merging: ''
       (merge_body eng input_pdfs output_path w)"

section \<open>encryption.py\<close>

definition encrypt_body ::
  "engine \<Rightarrow> pdf_source \<Rightarrow> string option \<Rightarrow> string option \<Rightarrow> string \<Rightarrow> world
     \<Rightarrow> (exn + result) \<times> world" where
  "encrypt_body eng input_pdf password output_path algorithm w =
     (case validate_pdf eng input_pdf w of
        ((is_valid, error_message), w1) \<Rightarrow>
          if \<not> is_valid then
            (Inr (RPair False error_message),
             log_msg ERROR (''Validation failed: '' @ py_str error_message) w1)
          else if \<not> truthy password then
            (Inr (RPair False (Some ''Password is required for encryption'')),
             log_msg ERROR ''Password is required for encryption'' w1)
          else
            (case open_reader eng input_pdf w1 of
               (Inl e, w2) \<Rightarrow> (Inl e, w2)
             | (Inr None, w2) \<Rightarrow> (Inr (RPair False (Some ''Unsupported input type'')), w2)
             | (Inr (Some rd), w2) \<Rightarrow>
                 (case reader_pages eng input_pdf rd w2 of
                    (pages_result, w3) \<Rightarrow>
                      (case bind_exn pages_result (\<lambda>pages.
                            bind_exn (fold_exn (add_page eng) pages PdfWriter) (\<lambda>wr.
                            writer_encrypt eng wr password algorithm)) of
                         Inl e \<Rightarrow> (Inl e, w3)
                       | Inr wr \<Rightarrow>
                           save_output eng wr output_path ''Encrypted PDF saved to: ''
                             ''PDF encryption completed successfully'' w3))))"

definition encrypt ::
  "engine \<Rightarrow> pdf_source \<Rightarrow> string option \<Rightarrow> string option \<Rightarrow> string \<Rightarrow> world
     \<Rightarrow> (exn + result) \<times> world" where
  "encrypt eng input_pdf password output_path algorithm w =
     catch_all ''An error occurred during encryption: ''
       (encrypt_body eng input_pdf password output_path algorithm w)"

text \<open>
  \<open>reader.decrypt(password)\<close> is called for its effect on the reader; what it returns is
  not looked at, so only an exception from it reaches the inner handler.
\<close>

definition decrypt_body ::
  "engine \<Rightarrow> pdf_source \<Rightarrow> string option \<Rightarrow> string option \<Rightarrow> world
     \<Rightarrow> (exn + result) \<times> world" where
  "decrypt_body eng input_pdf password output_path w =
     (case validate_pdf eng input_pdf w of
        ((is_valid, error_message), w1) \<Rightarrow>
          if \<not> is_valid then
            (Inr (RPair False error_message),
             log_msg ERROR (''Validation failed: '' @ py_str error_message) w1)
          else if \<not> truthy password then
            (Inr (RPair False (Some ''Password is required for decryption'')),
             log_msg ERROR ''Password is required for decryption'' w1)
          else
            (case open_reader eng input_pdf w1 of
               (Inl e, w2) \<Rightarrow> (Inl e, w2)
             | (Inr None, w2) \<Rightarrow> (Inr (RPair False (Some ''Unsupported input type'')), w2)
             | (Inr (Some rd), w2) \<Rightarrow>
                 if \<not> r_is_encrypted rd then
                   (Inr (RPair False (Some ''The PDF is not encrypted'')),
                    log_msg WARNING ''The PDF is not encrypted'' w2)
                 else
                   (case reader_decrypt eng rd password of
                      Inl e \<Rightarrow>
                        (Inr (RPair False (Some ''Incorrect password or failed to decrypt the PDF'')),
                         log_msg ERROR ''Incorrect password or failed to decrypt the PDF'' w2)
                    | Inr rd' \<Rightarrow>
                        (case reader_pages eng input_pdf rd' w2 of
                           (pages_result, w3) \<Rightarrow>
                             (case bind_exn pages_result (\<lambda>pages.
                                   fold_exn (add_page eng) pages PdfWriter) of
                                Inl e \<Rightarrow> (Inl e, w3)
                              | Inr wr \<Rightarrow>
                                  save_output eng wr output_path ''Decrypted PDF saved to: ''
                                    ''PDF decryption completed successfully'' w3)))))"

definition decrypt ::
  "engine \<Rightarrow> pdf_source \<Rightarrow> string option \<Rightarrow> string option \<Rightarrow> world
     \<Rightarrow> (exn + result) \<times> world" where
  "decrypt eng input_pdf password output_path w =
     catch_all ''An error occurred during decryption: ''
       (decrypt_body eng input_pdf password output_path w)"

section \<open>converter.py: PDF to Excel\<close>

text \<open>The body of \<open>for table in page_tables\<close>: build a frame and append it.\<close>

definition table_step :: "engine \<Rightarrow> frame list \<Rightarrow> table \<Rightarrow> exn + frame list" where
  "table_step eng tables_list table =
     bind_exn
       (if length table > 1 then data_frame eng (tl table) (Some (hd table))
        else data_frame eng table None)
       (\<lambda>df. Inr (tables_list @ [df]))"

text \<open>The body of \<open>for page in pdf.pages[batch_start:batch_end]\<close>.\<close>

definition page_step :: "engine \<Rightarrow> frame list \<Rightarrow> page \<Rightarrow> exn + frame list" where
  "page_step eng tables_list pg =
     bind_exn (extract_tables eng pg) (\<lambda>page_tables.
       if page_tables \<noteq> [] then fold_exn (table_step eng) page_tables tables_list
       else Inr tables_list)"

text \<open>
  The loop \<open>for batch_start in range(0, total_pages, batch_size)\<close> from a given
  \<open>batch_start\<close> on.  A negative step makes the range empty; the step 0 is rejected by
  \<open>range\<close> itself before the loop starts (see \<open>extract_and_save_tables\<close>).
\<close>

function process_batches ::
  "engine \<Rightarrow> page list \<Rightarrow> int \<Rightarrow> nat \<Rightarrow> frame list \<Rightarrow> world \<Rightarrow> (exn + frame list) \<times> world" where
  "process_batches eng pages batch_size batch_start tables_list w =
     (if batch_size \<le> 0 \<or> length pages \<le> batch_start then (Inr tables_list, w)
      else
        (let batch_end = min (batch_start + nat batch_size) (length pages);
             w1 = log_msg INFO (''Processing pages '' @ show_nat (batch_start + 1) @ '' to ''
                                  @ show_nat batch_end) w
         in case fold_exn (page_step eng)
                   (take (batch_end - batch_start) (drop batch_start pages)) tables_list of
              Inl e \<Rightarrow> (Inl e, w1)
            | Inr tables_list' \<Rightarrow>
                process_batches eng pages batch_size (batch_start + nat batch_size)
                  tables_list' w1))"
  by pat_completeness auto
termination
proof (relation "measure (\<lambda>(eng, pages, batch_size, batch_start, tables_list, w).
                  length pages - batch_start)")
  show "wf (measure (\<lambda>(eng, pages, batch_size, batch_start, tables_list, w).
                  length pages - batch_start))"
    by simp
next
  fix eng :: engine and pages :: "page list" and batch_size :: int and batch_start :: nat
    and tables_list :: "frame list" and w :: world and tables_list' :: "frame list"
    and w1 :: world
  assume "\<not> (batch_size \<le> 0 \<or> length pages \<le> batch_start)"
  then have "length pages - (batch_start + nat batch_size) < length pages - batch_start"
    by linarith
  then show "((eng, pages, batch_size, batch_start + nat batch_size, tables_list', w1),
              (eng, pages, batch_size, batch_start, tables_list, w))
             \<in> measure (\<lambda>(eng, pages, batch_size, batch_start, tables_list, w).
                  length pages - batch_start)"
    by (simp only: in_measure prod.case)
qed

declare process_batches.simps [simp del]

definition extract_and_save_tables ::
  "engine \<Rightarrow> page list \<Rightarrow> string option \<Rightarrow> int \<Rightarrow> world \<Rightarrow> (exn + result) \<times> world" where
  "extract_and_save_tables eng pages output_path batch_size w =
     (let total_pages = length pages;
          w1 = log_msg INFO (''Processing PDF with '' @ show_nat total_pages @ '' pages'') w
      in if batch_size = 0 then (Inl (PyException ''range() arg 3 must not be zero''), w1)
         else
           (case process_batches eng pages batch_size 0 [] w1 of
              (Inl e, w2) \<Rightarrow> (Inl e, w2)
            | (Inr tables_list, w2) \<Rightarrow>
                if tables_list = [] then
                  (Inr (RPair False (Some ''No tables found in the PDF'')),
                   log_msg WARNING ''No tables found in the PDF'' w2)
                else
                  (case pd_concat eng tables_list of
                     Inl e \<Rightarrow> (Inl e, w2)
                   | Inr combined_df \<Rightarrow>
                       if truthy output_path then
                         (let p = the output_path in
                          case open_write_error eng p of
                            Some e \<Rightarrow> (Inl e, w2)
                          | None \<Rightarrow>
                              (case to_excel eng combined_df of
                                 Inl e \<Rightarrow> (Inl e, w2)
                               | Inr data \<Rightarrow>
                                   (Inr (RPath p),
                                    log_msg INFO (''Excel file saved to: '' @ p)
                                      (w2\<lparr>files := (files w2)(p \<mapsto> data)\<rparr>))))
                       else
                         (case to_excel eng combined_df of
                            Inl e \<Rightarrow> (Inl e, w2)
                          | Inr data \<Rightarrow>
                              (Inr (RBytes data),
                               log_msg INFO ''PDF to Excel conversion completed successfully''
                                 w2)))))"

definition pdfplumber_missing :: string where
  "pdfplumber_missing =
     ''pdfplumber is required for PDF to Excel conversion. Install it with ''
     @ [CHR 0x27] @ ''pip install pdfplumber'' @ [CHR 0x27] @ ''.''"

text \<open>
  The three branches of \<open>convert\<close> open the source with pdfplumber and then make the
  same call to \<open>_extract_and_save_tables\<close>; the opening is written once here.
  \<open>Inr None\<close> is the early return \<open>False, "Unsupported input type"\<close>.
\<close>

definition pdfplumber_open_source ::
  "engine \<Rightarrow> pdf_source \<Rightarrow> world \<Rightarrow> (exn + page list option) \<times> world" where
  "pdfplumber_open_source eng input_pdf w =
     (case input_pdf of
        PathSrc p \<Rightarrow>
          (case bind_exn (read_file eng p None w) (pdfplumber_open eng) of
             Inl e \<Rightarrow> (Inl e, w)
           | Inr pages \<Rightarrow> (Inr (Some pages), w))
      | StreamSrc h \<Rightarrow>
          (let current_pos = tell h w;
               w1 = seek h 0 w
           in case stream_read h None w1 of
                (Inl e, w2) \<Rightarrow> (Inl e, w2)
              | (Inr content, w2) \<Rightarrow>
                  (let w3 = seek h current_pos w2
                   in case pdfplumber_open eng content of
                        Inl e \<Rightarrow> (Inl e, w3)
                      | Inr pages \<Rightarrow> (Inr (Some pages), w3)))
      | BytesSrc b \<Rightarrow>
          (case pdfplumber_open eng b of
             Inl e \<Rightarrow> (Inl e, w)
           | Inr pages \<Rightarrow> (Inr (Some pages), w))
      | OtherSrc \<Rightarrow> (Inr None, w))"

definition PDFToExcelConverter_convert_body ::
  "engine \<Rightarrow> pdf_source \<Rightarrow> string option \<Rightarrow> int \<Rightarrow> world \<Rightarrow> (exn + result) \<times> world" where
  "PDFToExcelConverter_convert_body eng input_pdf output_path batch_size w =
     (case validate_pdf eng input_pdf w of
        ((is_valid, error_message), w1) \<Rightarrow>
          if \<not> is_valid then
            (Inr (RPair False error_message),
             log_msg ERROR (''Validation failed: '' @ py_str error_message) w1)
          else if \<not> pdfplumber_installed eng then
            (Inr (RPair False (Some pdfplumber_missing)),
             log_msg ERROR ''pdfplumber is required for PDF to Excel conversion'' w1)
          else
            (case pdfplumber_open_source eng input_pdf w1 of
               (Inl e, w2) \<Rightarrow> (Inl e, w2)
             | (Inr None, w2) \<Rightarrow> (Inr (RPair False (Some ''Unsupported input type'')), w2)
             | (Inr (Some pages), w2) \<Rightarrow>
                 extract_and_save_tables eng pages output_path batch_size w2))"

definition PDFToExcelConverter_convert ::
  "engine \<Rightarrow> pdf_source \<Rightarrow> string option \<Rightarrow> int \<Rightarrow> world \<Rightarrow> (exn + result) \<times> world" where
  "PDFToExcelConverter_convert eng input_pdf output_path batch_size w =
     catch_all ''An error occurred during PDF to Excel conversion: ''
       (PDFToExcelConverter_convert_body eng input_pdf output_path batch_size w)"

section \<open>converter.py: PDF to Word\<close>

text \<open>
  \<open>tempfile.NamedTemporaryFile(delete=False, suffix=...)\<close>: a new empty file whose name
  the operating system chooses.
\<close>

definition make_temp :: "engine \<Rightarrow> string \<Rightarrow> world \<Rightarrow> (exn + string) \<times> world" where
  "make_temp eng suffix w =
     (case mktemp eng (tmp_counter w) suffix of
        Inl e \<Rightarrow> (Inl e, w)
      | Inr name \<Rightarrow>
          (Inr name, w\<lparr>files := (files w)(name \<mapsto> []), tmp_counter := Suc (tmp_counter w)\<rparr>))"

definition os_remove :: "engine \<Rightarrow> string \<Rightarrow> world \<Rightarrow> (exn + unit) \<times> world" where
  "os_remove eng p w =
     (case remove_error eng p of
        Some e \<Rightarrow> (Inl e, w)
      | None \<Rightarrow>
          (case files w p of
             None \<Rightarrow> (Inl (PyException (''[Errno 2] No such file or directory: '' @ p)), w)
           | Some b \<Rightarrow> (Inr (), w\<lparr>files := (files w)(p := None)\<rparr>)))"

text \<open>\<open>temp_pdf.write(data)\<close> on the temporary file named \<open>tp\<close>.\<close>

definition temp_write :: "engine \<Rightarrow> string \<Rightarrow> bytes \<Rightarrow> world \<Rightarrow> (exn + unit) \<times> world" where
  "temp_write eng tp data w =
     (case temp_write_error eng tp of
        Some e \<Rightarrow> (Inl e, w)
      | None \<Rightarrow> (Inr (), w\<lparr>files := (files w)(tp \<mapsto> data)\<rparr>))"

text \<open>
  The body of the \<open>with\<close> block that copies the source into the temporary PDF.
  \<open>Inr False\<close> is the early return \<open>False, "Unsupported input type"\<close>.
\<close>

definition write_temp_pdf ::
  "engine \<Rightarrow> pdf_source \<Rightarrow> string \<Rightarrow> world \<Rightarrow> (exn + bool) \<times> world" where
  "write_temp_pdf eng input_pdf tp w =
     (case input_pdf of
        PathSrc p \<Rightarrow>
          (case read_file eng p None w of
             Inl e \<Rightarrow> (Inl e, w)
           | Inr data \<Rightarrow>
               (case temp_write eng tp data w of
                  (Inl e, w1) \<Rightarrow> (Inl e, w1)
                | (Inr u, w1) \<Rightarrow> (Inr True, w1)))
      | StreamSrc h \<Rightarrow>
          (let current_pos = tell h w;
               w1 = seek h 0 w
           in case stream_read h None w1 of
                (Inl e, w2) \<Rightarrow> (Inl e, w2)
              | (Inr data, w2) \<Rightarrow>
                  (case temp_write eng tp data w2 of
                     (Inl e, w3) \<Rightarrow> (Inl e, w3)
                   | (Inr u, w3) \<Rightarrow> (Inr True, seek h current_pos w3)))
      | BytesSrc b \<Rightarrow>
          (case temp_write eng tp b w of
             (Inl e, w1) \<Rightarrow> (Inl e, w1)
           | (Inr u, w1) \<Rightarrow> (Inr True, w1))
      | OtherSrc \<Rightarrow> (Inr False, w))"

text \<open>The body of the inner \<open>try\<close>: run the converter and build the return value.\<close>

definition convert_step ::
  "engine \<Rightarrow> string \<Rightarrow> string \<Rightarrow> string option \<Rightarrow> int \<Rightarrow> int option \<Rightarrow> world
     \<Rightarrow> (exn + result) \<times> world" where
  "convert_step eng temp_pdf_path temp_docx_path output_path start_page end_page w =
     (let w1 = log_msg INFO
                 (''Converting PDF to Word (pages '' @ show_int start_page @ '' to ''
                    @ (case end_page of
                         None \<Rightarrow> ''end''
                       | Some e \<Rightarrow> if e \<noteq> 0 then show_int e else ''end'') @ '')'') w
      in case bind_exn (read_file eng temp_pdf_path None w1)
                (\<lambda>b. pdf2docx_convert eng b start_page end_page) of
           Inl e \<Rightarrow> (Inl e, w1)
         | Inr docx \<Rightarrow>
             (case open_write_error eng temp_docx_path of
                Some e \<Rightarrow> (Inl e, w1)
              | None \<Rightarrow>
                  (let w2 = w1\<lparr>files := (files w1)(temp_docx_path \<mapsto> docx)\<rparr> in
                   if truthy output_path then
                     (Inr (RPath (the output_path)),
                      log_msg INFO (''Word file saved to: '' @ the output_path) w2)
                   else
                     (case read_file eng temp_docx_path None w2 of
                        Inl e \<Rightarrow> (Inl e, w2)
                      | Inr docx_data \<Rightarrow>
                          (Inr (RBytes docx_data),
                           log_msg INFO ''PDF to Word conversion completed successfully''
                             w2)))))"

text \<open>
  The \<open>finally\<close> block.  Each removal sits in its own \<open>try\<close> whose handler is
  \<open>except: pass\<close>: a failed removal leaves no trace.
\<close>

definition cleanup :: "engine \<Rightarrow> string \<Rightarrow> string \<Rightarrow> bool \<Rightarrow> world \<Rightarrow> world" where
  "cleanup eng temp_pdf_path temp_docx_path delete_output w =
     (let w1 = (case os_remove eng temp_pdf_path w of
                  (Inl e, w') \<Rightarrow> w'
                | (Inr u, w') \<Rightarrow>
                    log_msg DEBUG (''Deleted temporary PDF file: '' @ temp_pdf_path) w')
      in if delete_output then
           (case os_remove eng temp_docx_path w1 of
              (Inl e, w') \<Rightarrow> w'
            | (Inr u, w') \<Rightarrow>
                log_msg DEBUG (''Deleted temporary Word file: '' @ temp_docx_path) w')
         else w1)"

definition pdf2docx_missing :: string where
  "pdf2docx_missing =
     ''pdf2docx is required for PDF to Word conversion. Install it with ''
     @ [CHR 0x27] @ ''pip install pdf2docx'' @ [CHR 0x27] @ ''.''"

text \<open>The choice of the destination: \<open>(temp_docx_path, delete_output)\<close>.\<close>

definition choose_docx ::
  "engine \<Rightarrow> string option \<Rightarrow> world \<Rightarrow> (exn + string \<times> bool) \<times> world" where
  "choose_docx eng output_path w =
     (if truthy output_path then (Inr (the output_path, False), w)
      else
        (case make_temp eng ''.docx'' w of
           (Inl e, w1) \<Rightarrow> (Inl e, w1)
         | (Inr temp_docx_path, w1) \<Rightarrow> (Inr (temp_docx_path, True), w1)))"

definition PDFToWordConverter_convert_body ::
  "engine \<Rightarrow> pdf_source \<Rightarrow> string option \<Rightarrow> int \<Rightarrow> int option \<Rightarrow> world
     \<Rightarrow> (exn + result) \<times> world" where
  "PDFToWordConverter_convert_body eng input_pdf output_path start_page end_page w =
     (case validate_pdf eng input_pdf w of
        ((is_valid, error_message), w1) \<Rightarrow>
          if \<not> is_valid then
            (Inr (RPair False error_message),
             log_msg ERROR (''Validation failed: '' @ py_str error_message) w1)
          else if \<not> pdf2docx_installed eng then
            (Inr (RPair False (Some pdf2docx_missing)),
             log_msg ERROR ''pdf2docx is required for PDF to Word conversion'' w1)
          else
            (case make_temp eng ''.pdf'' w1 of
               (Inl e, w2) \<Rightarrow> (Inl e, w2)
             | (Inr temp_pdf_path, w2) \<Rightarrow>
                 (case write_temp_pdf eng input_pdf temp_pdf_path w2 of
                    (Inl e, w3) \<Rightarrow> (Inl e, w3)
                  | (Inr False, w3) \<Rightarrow>
                      (Inr (RPair False (Some ''Unsupported input type'')), w3)
                  | (Inr True, w3) \<Rightarrow>
                      (case choose_docx eng output_path w3 of
                         (Inl e, w4) \<Rightarrow> (Inl e, w4)
                       | (Inr (temp_docx_path, delete_output), w4) \<Rightarrow>
                           (case convert_step eng temp_pdf_path temp_docx_path output_path
                                   start_page end_page w4 of
                              (r, w5) \<Rightarrow>
                                (r, cleanup eng temp_pdf_path temp_docx_path delete_output
                                      w5))))))"

definition PDFToWordConverter_convert ::
  "engine \<Rightarrow> pdf_source \<Rightarrow> string option \<Rightarrow> int \<Rightarrow> int option \<Rightarrow> world
     \<Rightarrow> (exn + result) \<times> world" where
  "PDFToWordConverter_convert eng input_pdf output_path start_page end_page w =
     catch_all ''An error occurred during PDF to Word conversion: ''
       (PDFToWordConverter_convert_body eng input_pdf output_path start_page end_page w)"

section \<open>Properties stated about the operations\<close>

text \<open>
  The shapes an operation may return, given the \<open>output_path\<close> it was called with: the
  destination path itself, which is then a non-empty string; a byte buffer, when no
  destination was given; or a tuple whose flag is \<open>False\<close> and whose message is a string.
\<close>

fun well_shaped :: "string option \<Rightarrow> result \<Rightarrow> bool" where
  "well_shaped output_path (RPath p) = (output_path = Some p \<and> p \<noteq> [])"
| "well_shaped output_path (RBytes b) = (\<not> truthy output_path)"
| "well_shaped output_path (RPair flag msg) = (\<not> flag \<and> msg \<noteq> None)"

text \<open>Two worlds that differ at most in what was logged.\<close>

definition same_but_logs :: "world \<Rightarrow> world \<Rightarrow> bool" where
  "same_but_logs w1 w2 =
     (files w1 = files w2 \<and> streams w1 = streams w2 \<and> tmp_counter w1 = tmp_counter w2)"

subsection \<open>A small concrete environment\<close>

text \<open>
  An engine and a world on which the operations can be run: a document is the five bytes
  \<open>%PDF-\<close> followed by the content of its single page, the content \<open>corrupt\<close> cannot be
  parsed, and no call into the operating system fails.
\<close>

definition toy_engine :: engine where
  "toy_engine =
     \<lparr>mime_from_buffer =
        (\<lambda>b. Inr (if take 5 b = ''%PDF-'' then ''application/pdf'' else ''text/plain'')),
      pdf_reader =
        (\<lambda>b. if drop 5 b = ''corrupt'' then Inl (PyException ''EOF marker not found'')
             else Inr \<lparr>r_pages = Inr [drop 5 b], r_is_encrypted = False\<rparr>),
      reader_cursor = (\<lambda>b. 0),
      lazy_cursor = (\<lambda>b. Some (length b)),
      add_page = (\<lambda>wr pg. Inr (wr\<lparr>w_pages := w_pages wr @ [pg]\<rparr>)),
      replace_images = (\<lambda>q pg. Inr pg),
      compress_content_streams = (\<lambda>l pg. Inr pg),
      compress_identical_objects = (\<lambda>a b wr. Inr wr),
      writer_write = (\<lambda>wr. Inr (''%PDF-'' @ concat (w_pages wr))),
      writer_append = (\<lambda>wr b. Inr (wr\<lparr>w_pages := w_pages wr @ [drop 5 b]\<rparr>)),
      writer_encrypt = (\<lambda>wr pw alg. Inr (wr\<lparr>w_encryption := Some (pw, alg)\<rparr>)),
      reader_decrypt = (\<lambda>rd pw. Inr rd),
      pdfplumber_installed = True,
      pdfplumber_open = (\<lambda>b. Inr [drop 5 b]),
      extract_tables =
        (\<lambda>pg. Inr (if pg = ''one'' then [[[Some ''h''], [Some ''1'']]] else [])),
      data_frame = (\<lambda>t h. Inr (h, t)),
      pd_concat = (\<lambda>fs. Inr (None, concat (map snd fs))),
      to_excel = (\<lambda>f. Inr ''xlsx''),
      pdf2docx_installed = True,
      pdf2docx_convert = (\<lambda>b s e. Inr (''docx:'' @ drop 5 b)),
      open_read_error = (\<lambda>p. None),
      open_write_error = (\<lambda>p. None),
      remove_error = (\<lambda>p. None),
      temp_write_error = (\<lambda>p. None),
      mktemp = (\<lambda>n suffix. Inr (''/tmp/tmp'' @ show_nat n @ suffix))\<rparr>"

definition toy_world :: world where
  "toy_world =
     \<lparr>files = (\<lambda>p. if p = ''in.pdf'' then Some ''%PDF-one'' else None),
      streams = (\<lambda>h. \<lparr>s_data = ''%PDF-corrupt'', s_pos = 3, s_size = None,
                        s_read_error = None\<rparr>),
      logs = [],
      tmp_counter = 0\<rparr>"

text \<open>
  An engine whose reader finds every document encrypted with the password \<open>secret\<close>.
  Like the PDF library the package uses, its \<open>decrypt\<close> never raises: with the right
  password it unlocks the pages, with any other it leaves the reader locked and reports that
  in the value it returns, and the pages of a locked reader raise when they are asked for.
\<close>

definition encrypted_engine :: engine where
  "encrypted_engine = toy_engine
     \<lparr>pdf_reader :=
        (\<lambda>b. Inr \<lparr>r_pages = Inl (PyException ''File has not been decrypted''),
                   r_is_encrypted = True\<rparr>),
      reader_decrypt :=
        (\<lambda>rd pw. Inr (if pw = Some ''secret'' then rd\<lparr>r_pages := Inr [''one'']\<rparr> else rd))\<rparr>"

text \<open>An engine whose content-stream compression writes the level it was given on the page.\<close>

definition tagging_engine :: engine where
  "tagging_engine = toy_engine
     \<lparr>compress_content_streams := (\<lambda>l pg. Inr (pg @ ''/L'' @ show_int l))\<rparr>"

text \<open>The world of \<open>toy_world\<close> with streams that hold a document the parser accepts.\<close>

definition readable_world :: world where
  "readable_world = toy_world
     \<lparr>streams := (\<lambda>h. \<lparr>s_data = ''%PDF-one'', s_pos = 3, s_size = None,
                         s_read_error = None\<rparr>)\<rparr>"

text \<open>An engine on which every \<open>os.remove\<close> is refused.\<close>

definition sticky_engine :: engine where
  "sticky_engine = toy_engine\<lparr>remove_error := (\<lambda>p. Some (PyException ''Permission denied''))\<rparr>"

text \<open>An engine on which no temporary \<open>.docx\<close> file can be created.\<close>

definition full_disk_engine :: engine where
  "full_disk_engine = toy_engine
     \<lparr>mktemp := (\<lambda>n suffix. if suffix = ''.docx'' then Inl (PyException ''No space left on device'')
                              else Inr (''/tmp/tmp'' @ show_nat n @ suffix))\<rparr>"



section \<open>Auxiliary facts\<close>

lemma clamp_level_cases: "clamp_level l = (if l < 1 then 1 else if 10 < l then 10 else l)"
  by (simp add: clamp_level_def)

lemma clamp_level_idem: "clamp_level (clamp_level l) = clamp_level l"
  by (simp add: clamp_level_def)

lemma engine_level_clamp: "engine_level (clamp_level l) = engine_level l"
  by (simp add: engine_level_def clamp_level_idem)

lemma compress_clamp: "compress eng src out (clamp_level l) w = compress eng src out l w"
  unfolding compress_def compress_body_def engine_level_clamp ..

lemma catch_all_shaped:
  assumes "\<And>v w'. r = (Inr v, w') \<Longrightarrow> well_shaped out v"
  shows "\<exists>v w'. catch_all pfx r = (Inr v, w') \<and> well_shaped out v"
proof (cases r)
  case (Pair a w1)
  show ?thesis
  proof (cases a)
    case (Inl e)
    with Pair show ?thesis by (simp add: catch_all_def Let_def)
  next
    case (Inr v)
    with Pair assms show ?thesis by (simp add: catch_all_def)
  qed
qed

lemma validate_pdf_body_msg:
  "validate_pdf_body eng f w = (Inr (v, m), w') \<Longrightarrow> (v \<longrightarrow> m = None) \<and> (\<not> v \<longrightarrow> m \<noteq> None)"
  by (auto simp: validate_pdf_body_def Let_def split: pdf_source.splits if_splits sum.splits prod.splits option.splits)

lemma validate_pdf_msg:
  "validate_pdf eng f w = ((v, m), w') \<Longrightarrow> (v \<longrightarrow> m = None) \<and> (\<not> v \<longrightarrow> m \<noteq> None)"
  by (auto simp: validate_pdf_def split: sum.splits prod.splits dest: validate_pdf_body_msg)

lemma validate_pdf_invalid_msg:
  "validate_pdf eng f w = ((False, m), w') \<Longrightarrow> m \<noteq> None"
  using validate_pdf_msg by blast

lemma save_output_shaped:
  "save_output eng wr out m1 m2 w = (Inr v, w') \<Longrightarrow> well_shaped out v"
  by (cases out) (auto simp: save_output_def Let_def split: sum.splits option.splits if_splits)

lemma compress_body_shaped: "compress_body eng src out l w = (Inr v, w') \<Longrightarrow> well_shaped out v"
  by (auto simp: compress_body_def Let_def split: prod.splits sum.splits option.splits if_splits
      dest: validate_pdf_invalid_msg save_output_shaped)

lemma encrypt_body_shaped: "encrypt_body eng src pw out alg w = (Inr v, w') \<Longrightarrow> well_shaped out v"
  by (auto simp: encrypt_body_def Let_def split: prod.splits sum.splits option.splits if_splits
      dest: validate_pdf_invalid_msg save_output_shaped)

lemma decrypt_body_shaped: "decrypt_body eng src pw out w = (Inr v, w') \<Longrightarrow> well_shaped out v"
  by (auto simp: decrypt_body_def Let_def split: prod.splits sum.splits option.splits if_splits
      dest: validate_pdf_invalid_msg save_output_shaped)

lemma append_all_shaped: "append_all eng pdfs i m w = (Inl v, w') \<Longrightarrow> well_shaped out v"
  by (induction pdfs arbitrary: i m w) (auto simp: Let_def split: prod.splits sum.splits option.splits)

lemma merge_body_shaped: "merge_body eng pdfs out w = (Inr v, w') \<Longrightarrow> well_shaped out v"
  by (auto simp: merge_body_def Let_def split: prod.splits sum.splits option.splits if_splits
      dest: append_all_shaped save_output_shaped)

lemma extract_and_save_tables_shaped:
  "extract_and_save_tables eng pages out bs w = (Inr v, w') \<Longrightarrow> well_shaped out v"
  by (cases out) (auto simp: extract_and_save_tables_def Let_def split: prod.splits sum.splits option.splits if_splits)

lemma excel_body_shaped:
  "PDFToExcelConverter_convert_body eng src out bs w = (Inr v, w') \<Longrightarrow> well_shaped out v"
  by (auto simp: PDFToExcelConverter_convert_body_def Let_def
      split: prod.splits sum.splits option.splits if_splits
      dest: validate_pdf_invalid_msg extract_and_save_tables_shaped)

lemma convert_step_shaped:
  "convert_step eng tp td out s e w = (Inr v, w') \<Longrightarrow> well_shaped out v"
  by (cases out) (auto simp: convert_step_def Let_def split: prod.splits sum.splits option.splits if_splits)

lemma word_body_shaped:
  "PDFToWordConverter_convert_body eng src out s e w = (Inr v, w') \<Longrightarrow> well_shaped out v"
  by (auto simp: PDFToWordConverter_convert_body_def Let_def
      split: prod.splits sum.splits option.splits if_splits bool.splits
      dest: validate_pdf_invalid_msg convert_step_shaped)


lemma fold_exn_append:
  "fold_exn f (xs @ ys) acc = bind_exn (fold_exn f xs acc) (fold_exn f ys)"
  by (induction xs arbitrary: acc) (auto simp: bind_exn_def split: sum.splits)

lemma process_batches_nonpositive:
  "batch_size \<le> 0 \<Longrightarrow> process_batches eng pages batch_size start acc w = (Inr acc, w)"
  by (simp add: process_batches.simps)

lemma chunk_split:
  assumes "0 < k" "start < length pages"
  shows "drop start pages =
         take (min (start + k) (length pages) - start) (drop start pages) @ drop (start + k) pages"
proof -
  have a: "take (min (start + k) (length pages) - start) (drop start pages) = take k (drop start pages)"
    using assms by (cases "start + k \<le> length pages") (simp_all add: min_def)
  have b: "drop (start + k) pages = drop k (drop start pages)"
    by (simp add: add.commute)
  show ?thesis unfolding a b by (rule append_take_drop_id [symmetric])
qed

lemma process_batches_fold:
  "0 < batch_size \<Longrightarrow>
   fst (process_batches eng pages batch_size start acc w)
     = fold_exn (page_step eng) (drop start pages) acc"
proof (induction eng pages batch_size start acc w rule: process_batches.induct)
  case (1 eng pages batch_size batch_start tables_list w)
  show ?case
  proof (cases "length pages \<le> batch_start")
    case True
    then show ?thesis by (simp add: process_batches.simps)
  next
    case False
    let ?k = "nat batch_size"
    let ?e = "min (batch_start + ?k) (length pages)"
    let ?chunk = "take (?e - batch_start) (drop batch_start pages)"
    let ?w1 = "log_msg INFO (''Processing pages '' @ show_nat (batch_start + 1) @ '' to ''
                                  @ show_nat ?e) w"
    have k: "0 < ?k" using "1.prems" by simp
    have split: "drop batch_start pages = ?chunk @ drop (batch_start + ?k) pages"
      using chunk_split[OF k, of batch_start pages] False by simp
    have unfold_split:
      "fold_exn (page_step eng) (drop batch_start pages) tables_list
       = bind_exn (fold_exn (page_step eng) ?chunk tables_list)
           (fold_exn (page_step eng) (drop (batch_start + ?k) pages))"
      using arg_cong[where f = "\<lambda>xs. fold_exn (page_step eng) xs tables_list", OF split]
      by (simp only: fold_exn_append)
    show ?thesis
    proof (cases "fold_exn (page_step eng) ?chunk tables_list")
      case (Inl e)
      have "fst (process_batches eng pages batch_size batch_start tables_list w) = Inl e"
        using False "1.prems" Inl by (subst process_batches.simps) (simp add: Let_def)
      moreover have "fold_exn (page_step eng) (drop batch_start pages) tables_list = Inl e"
        using unfold_split by (simp add: Inl bind_exn_def)
      ultimately show ?thesis by simp
    next
      case (Inr acc')
      have "fst (process_batches eng pages batch_size batch_start tables_list w)
            = fst (process_batches eng pages batch_size (batch_start + ?k) acc' ?w1)"
        using False "1.prems" Inr by (subst process_batches.simps) (simp add: Let_def)
      also have "\<dots> = fold_exn (page_step eng) (drop (batch_start + ?k) pages) acc'"
        using "1.IH"[OF _ refl refl Inr] False "1.prems" by simp
      also have "\<dots> = fold_exn (page_step eng) (drop batch_start pages) tables_list"
        using unfold_split by (simp add: Inr bind_exn_def)
      finally show ?thesis .
    qed
  qed
qed

lemma log_msg_same: "same_but_logs (log_msg l m w) w' = same_but_logs w w'"
  "same_but_logs w' (log_msg l m w) = same_but_logs w' w"
  by (simp_all add: same_but_logs_def log_msg_def)

lemma same_but_logs_refl: "same_but_logs w w"
  by (simp add: same_but_logs_def)

lemma process_batches_world:
  "same_but_logs (snd (process_batches eng pages batch_size start acc w)) w"
proof (induction eng pages batch_size start acc w rule: process_batches.induct)
  case (1 eng pages batch_size batch_start tables_list w)
  show ?case
  proof (cases "batch_size \<le> 0 \<or> length pages \<le> batch_start")
    case True
    then show ?thesis by (simp add: process_batches.simps same_but_logs_refl)
  next
    case False
    let ?k = "nat batch_size"
    let ?e = "min (batch_start + ?k) (length pages)"
    let ?chunk = "take (?e - batch_start) (drop batch_start pages)"
    let ?w1 = "log_msg INFO (''Processing pages '' @ show_nat (batch_start + 1) @ '' to ''
                                  @ show_nat ?e) w"
    show ?thesis
    proof (cases "fold_exn (page_step eng) ?chunk tables_list")
      case (Inl e)
      have "snd (process_batches eng pages batch_size batch_start tables_list w) = ?w1"
        using False Inl by (subst process_batches.simps) (simp add: Let_def)
      then show ?thesis by (simp add: log_msg_same same_but_logs_refl)
    next
      case (Inr acc')
      have "snd (process_batches eng pages batch_size batch_start tables_list w)
            = snd (process_batches eng pages batch_size (batch_start + ?k) acc' ?w1)"
        using False Inr by (subst process_batches.simps) (simp add: Let_def)
      moreover have "same_but_logs (snd (process_batches eng pages batch_size (batch_start + ?k) acc' ?w1)) ?w1"
        using "1.IH"[OF False refl refl Inr] .
      ultimately show ?thesis by (simp add: same_but_logs_def log_msg_def)
    qed
  qed
qed

lemma same_but_logs_sym: "same_but_logs a b \<Longrightarrow> same_but_logs b a"
  by (simp add: same_but_logs_def)

lemma same_but_logs_trans: "same_but_logs a b \<Longrightarrow> same_but_logs b c \<Longrightarrow> same_but_logs a c"
  by (simp add: same_but_logs_def)

lemma process_batches_pair:
  assumes "0 < b1" "0 < b2"
  shows "\<exists>r wa wb. process_batches eng pages b1 0 [] w = (r, wa)
           \<and> process_batches eng pages b2 0 [] w = (r, wb)
           \<and> same_but_logs wa w \<and> same_but_logs wb w"
proof -
  have "fst (process_batches eng pages b1 0 [] w) = fst (process_batches eng pages b2 0 [] w)"
    using assms by (simp add: process_batches_fold)
  moreover have "same_but_logs (snd (process_batches eng pages b1 0 [] w)) w"
    by (rule process_batches_world)
  moreover have "same_but_logs (snd (process_batches eng pages b2 0 [] w)) w"
    by (rule process_batches_world)
  ultimately show ?thesis
    by (metis prod.collapse)
qed

lemma extract_and_save_tables_batch:
  assumes "0 < b1" "0 < b2"
  shows "fst (extract_and_save_tables eng pages out b1 w)
           = fst (extract_and_save_tables eng pages out b2 w)
         \<and> same_but_logs (snd (extract_and_save_tables eng pages out b1 w))
                          (snd (extract_and_save_tables eng pages out b2 w))"
proof -
  let ?w1 = "log_msg INFO (''Processing PDF with '' @ show_nat (length pages) @ '' pages'') w"
  obtain r wa wb where
    a: "process_batches eng pages b1 0 [] ?w1 = (r, wa)" and
    b: "process_batches eng pages b2 0 [] ?w1 = (r, wb)" and
    c: "same_but_logs wa ?w1" and d: "same_but_logs wb ?w1"
    using process_batches_pair[OF assms] by blast
  from c d have e: "files wa = files wb" "streams wa = streams wb" "tmp_counter wa = tmp_counter wb"
    by (simp_all add: same_but_logs_def)
  show ?thesis
    using assms a b e
    by (auto simp: extract_and_save_tables_def Let_def same_but_logs_def log_msg_def
        split: sum.splits option.splits)
qed

lemma catch_all_fst: "fst r1 = fst r2 \<Longrightarrow> fst (catch_all pfx r1) = fst (catch_all pfx r2)"
  by (cases r1; cases r2) (auto simp: catch_all_def Let_def split: sum.splits)

lemma catch_all_world:
  "fst r1 = fst r2 \<Longrightarrow> same_but_logs (snd r1) (snd r2)
   \<Longrightarrow> same_but_logs (snd (catch_all pfx r1)) (snd (catch_all pfx r2))"
  by (cases r1; cases r2)
     (auto simp: catch_all_def Let_def same_but_logs_def log_msg_def split: sum.splits)

lemma excel_body_batch:
  assumes "0 < b1" "0 < b2"
  shows "fst (PDFToExcelConverter_convert_body eng src out b1 w)
           = fst (PDFToExcelConverter_convert_body eng src out b2 w)
         \<and> same_but_logs (snd (PDFToExcelConverter_convert_body eng src out b1 w))
                          (snd (PDFToExcelConverter_convert_body eng src out b2 w))"
proof -
  obtain v m w1 where V: "validate_pdf eng src w = ((v, m), w1)"
    by (metis prod.exhaust)
  obtain r w2 where P: "pdfplumber_open_source eng src w1 = (r, w2)"
    by (metis prod.exhaust)
  show ?thesis
  proof (cases "v \<and> pdfplumber_installed eng")
    case False
    then show ?thesis using V
      by (auto simp: PDFToExcelConverter_convert_body_def same_but_logs_refl)
  next
    case True
    show ?thesis
    proof (cases r)
      case (Inl e)
      then show ?thesis using V P True
        by (simp add: PDFToExcelConverter_convert_body_def same_but_logs_refl)
    next
      case (Inr x)
      show ?thesis
      proof (cases x)
        case None
        then show ?thesis using V P True Inr
          by (simp add: PDFToExcelConverter_convert_body_def same_but_logs_refl)
      next
        case (Some pages)
        then show ?thesis using V P True Inr extract_and_save_tables_batch[OF assms]
          by (simp add: PDFToExcelConverter_convert_body_def)
      qed
    qed
  qed
qed

lemma show_nat_digit: "n < 10 \<Longrightarrow> show_nat n = [char_of (48 + n)]"
  by (simp add: show_nat.simps)

lemmas run_defs =
  catch_all_def validate_pdf_def validate_pdf_body_def getsize_def read_file_def
  validate_pdf_size_def MAX_FILE_SIZE_def validate_pdf_mime_def ALLOWED_MIME_TYPES_def
  bind_exn_def Let_def log_msg_def tell_def seek_def stream_read_def size_message_def

lemmas toy_defs = toy_engine_def toy_world_def

lemmas excel_defs =
  PDFToExcelConverter_convert_def PDFToExcelConverter_convert_body_def
  pdfplumber_open_source_def extract_and_save_tables_def page_step_def table_step_def

lemma read_file_extract_tables:
  "read_file (eng\<lparr>extract_tables := f\<rparr>) p n w = read_file eng p n w"
  by (simp add: read_file_def)

lemma validate_pdf_mime_extract_tables:
  "validate_pdf_mime (eng\<lparr>extract_tables := f\<rparr>) b = validate_pdf_mime eng b"
  by (simp add: validate_pdf_mime_def)

lemma validate_pdf_body_extract_tables:
  "validate_pdf_body (eng\<lparr>extract_tables := f\<rparr>) src w = validate_pdf_body eng src w"
  by (cases src)
     (simp_all add: validate_pdf_body_def read_file_extract_tables
        validate_pdf_mime_extract_tables Let_def split: prod.splits sum.splits option.splits)

lemma validate_pdf_extract_tables:
  "validate_pdf (eng\<lparr>extract_tables := f\<rparr>) src w = validate_pdf eng src w"
  by (simp add: validate_pdf_def validate_pdf_body_extract_tables)

lemma pdfplumber_open_source_extract_tables:
  "pdfplumber_open_source (eng\<lparr>extract_tables := f\<rparr>) src w = pdfplumber_open_source eng src w"
  by (cases src)
     (simp_all add: pdfplumber_open_source_def read_file_extract_tables Let_def
        split: prod.splits sum.splits option.splits)

lemma extract_and_save_tables_nonpositive:
  assumes "batch_size \<le> 0"
  shows "extract_and_save_tables eng pages output_path batch_size w =
     (let w1 = log_msg INFO (''Processing PDF with '' @ show_nat (length pages) @ '' pages'') w
      in if batch_size = 0 then (Inl (PyException ''range() arg 3 must not be zero''), w1)
         else (Inr (RPair False (Some ''No tables found in the PDF'')),
               log_msg WARNING ''No tables found in the PDF'' w1))"
  using assms
  by (simp add: extract_and_save_tables_def Let_def process_batches_nonpositive)

lemma seek_back: "seek h (s_pos (streams w h)) (seek h q (seek h r w)) = w"
  by (simp add: seek_def)

lemma validate_pdf_body_ok_world:
  "validate_pdf_body eng src w = (Inr (True, m), w') \<Longrightarrow> w' = w"
  by (cases src)
     (auto simp: validate_pdf_body_def Let_def stream_read_def tell_def seek_back
        split: if_splits sum.splits option.splits prod.splits)

lemma validate_pdf_ok_world:
  "validate_pdf eng src w = ((True, m), w') \<Longrightarrow> w' = w"
  by (auto simp: validate_pdf_def split: sum.splits prod.splits dest: validate_pdf_body_ok_world)



lemma validate_all_first_invalid:
  assumes "i < length pdfs"
    and "\<forall>j<i. fst (fst (validate_pdf eng (pdfs ! j) w))"
    and "validate_pdf eng (pdfs ! i) w = ((False, msg), w')"
  shows "validate_all eng pdfs k w = (Some (k + i, msg), w')"
  using assms
proof (induction pdfs arbitrary: i k)
  case Nil
  then show ?case by simp
next
  case (Cons pdf rest)
  show ?case
  proof (cases i)
    case 0
    with Cons.prems show ?thesis by simp
  next
    case (Suc i')
    obtain m0 w0 where v0: "validate_pdf eng pdf w = ((True, m0), w0)"
      using Cons.prems(2) Suc by (cases "validate_pdf eng pdf w") force
    then have w0: "w0 = w" by (rule validate_pdf_ok_world)
    have "validate_all eng rest (Suc k) w = (Some (Suc k + i', msg), w')"
      using Cons.prems Suc by (intro Cons.IH) auto
    then show ?thesis using v0 w0 Suc by simp
  qed
qed

lemma show_nat_small:
  "show_nat 0 = ''0''" "show_nat 1 = ''1''" "show_nat 2 = ''2''" "show_nat 3 = ''3''"
  by code_simp+

lemma show_nat_Suc:
  "show_nat (Suc 0) = ''1''" "show_nat (Suc (Suc 0)) = ''2''"
  using show_nat_small(2,3) by (simp_all add: numeral_2_eq_2)






lemma merge_first_invalid:
  assumes "2 \<le> length input_pdfs"
    and "validate_all eng input_pdfs 0 w = (Some (i, msg), w')"
  shows "merge eng input_pdfs output_path w
         = (Inr (RPair False (Some (''Validation failed for PDF #'' @ show_nat (i + 1) @ '': ''
                                      @ py_str msg))),
            log_msg ERROR (''Validation failed for PDF #'' @ show_nat (i + 1) @ '': ''
                             @ py_str msg) w')"
proof -
  have ne: "input_pdfs \<noteq> []" "\<not> length input_pdfs < 2" using assms(1) by auto
  show ?thesis
    by (simp add: merge_def merge_body_def ne assms(2) catch_all_def Let_def)
qed

lemma validate_pdf_other:
  "validate_pdf eng OtherSrc w = ((False, Some ''Unsupported file type''), w)"
  by (simp add: validate_pdf_def validate_pdf_body_def)

lemmas word_defs =
  PDFToWordConverter_convert_def PDFToWordConverter_convert_body_def make_temp_def
  write_temp_pdf_def temp_write_def choose_docx_def convert_step_def cleanup_def os_remove_def
  show_int_def

lemma seek_fields:
  "s_read_error (streams (seek h p w) h) = s_read_error (streams w h)"
  "s_data (streams (seek h p w) h) = s_data (streams w h)"
  "s_pos (streams (seek h p w) h) = p"
  by (simp_all add: seek_def)

lemma stream_read_ok:
  "s_read_error (streams w h) = None
   \<Longrightarrow> stream_read h n (seek h 0 w)
       = (Inr (case n of None \<Rightarrow> s_data (streams w h) | Some k \<Rightarrow> take k (s_data (streams w h))),
          seek h (length (case n of None \<Rightarrow> s_data (streams w h)
                                  | Some k \<Rightarrow> take k (s_data (streams w h))))
            (seek h 0 w))"
  by (simp add: stream_read_def seek_fields Let_def)

lemma validate_pdf_stream_restored:
  assumes "s_read_error (streams w h) = None"
  shows "snd (validate_pdf eng (StreamSrc h) w) = w"
proof -
  have r: "stream_read h (Some 1024) (seek h 0 w)
           = (Inr (take 1024 (s_data (streams w h))),
              seek h (length (take 1024 (s_data (streams w h)))) (seek h 0 w))"
    using stream_read_ok[OF assms, of "Some 1024"] by simp
  show ?thesis
    by (simp add: validate_pdf_def validate_pdf_body_def Let_def r tell_def seek_back
        split: sum.splits option.splits)
qed

lemma read_file_remove_error:
  "read_file (eng\<lparr>remove_error := f\<rparr>) p n w = read_file eng p n w"
  by (simp add: read_file_def)

lemma validate_pdf_mime_remove_error:
  "validate_pdf_mime (eng\<lparr>remove_error := f\<rparr>) b = validate_pdf_mime eng b"
  by (simp add: validate_pdf_mime_def)

lemma validate_pdf_body_remove_error:
  "validate_pdf_body (eng\<lparr>remove_error := f\<rparr>) src w = validate_pdf_body eng src w"
  by (cases src)
     (simp_all add: validate_pdf_body_def read_file_remove_error
        validate_pdf_mime_remove_error Let_def split: prod.splits sum.splits option.splits)

lemma validate_pdf_remove_error:
  "validate_pdf (eng\<lparr>remove_error := f\<rparr>) src w = validate_pdf eng src w"
  by (simp add: validate_pdf_def validate_pdf_body_remove_error)

lemma make_temp_remove_error:
  "make_temp (eng\<lparr>remove_error := f\<rparr>) suffix w = make_temp eng suffix w"
  by (simp add: make_temp_def)

lemma temp_write_remove_error:
  "temp_write (eng\<lparr>remove_error := f\<rparr>) tp b w = temp_write eng tp b w"
  by (simp add: temp_write_def)

lemma write_temp_pdf_remove_error:
  "write_temp_pdf (eng\<lparr>remove_error := f\<rparr>) src tp w = write_temp_pdf eng src tp w"
  by (cases src)
     (simp_all add: write_temp_pdf_def read_file_remove_error temp_write_remove_error Let_def
        split: prod.splits sum.splits option.splits)

lemma choose_docx_remove_error:
  "choose_docx (eng\<lparr>remove_error := f\<rparr>) out w = choose_docx eng out w"
  by (simp add: choose_docx_def make_temp_remove_error)

lemma convert_step_remove_error:
  "convert_step (eng\<lparr>remove_error := f\<rparr>) tp td out s e w = convert_step eng tp td out s e w"
  by (simp add: convert_step_def read_file_remove_error Let_def
        split: prod.splits sum.splits option.splits)

lemma os_remove_files:
  "remove_error eng p = None \<Longrightarrow> files (snd (os_remove eng p w)) p = None"
  by (simp add: os_remove_def split: option.splits)

lemma os_remove_keeps_absent:
  "files w q = None \<Longrightarrow> files (snd (os_remove eng p w)) q = None"
  by (simp add: os_remove_def split: option.splits)

lemma cleanup_files_pdf:
  "remove_error eng tp = None \<Longrightarrow> files (cleanup eng tp td del w) tp = None"
  using os_remove_files[of eng tp w]
        os_remove_keeps_absent[of "snd (os_remove eng tp w)" tp eng td]
  by (auto simp: cleanup_def Let_def log_msg_def os_remove_def split: prod.splits sum.splits option.splits)

lemma cleanup_files_docx:
  "del \<Longrightarrow> remove_error eng td = None \<Longrightarrow> files (cleanup eng tp td del w) td = None"
  by (auto simp: cleanup_def Let_def log_msg_def os_remove_def split: prod.splits sum.splits option.splits)

lemma cleanup_silent:
  "remove_error eng tp \<noteq> None \<Longrightarrow> \<not> del \<or> remove_error eng td \<noteq> None
   \<Longrightarrow> cleanup eng tp td del w = w"
  by (auto simp: cleanup_def Let_def os_remove_def split: prod.splits sum.splits option.splits)

lemma catch_all_files: "files (snd (catch_all pfx (r, w))) = files w"
  by (cases r) (simp_all add: catch_all_def Let_def log_msg_def)

lemma catch_all_fst_pair: "fst (catch_all pfx (r, w)) = fst (catch_all pfx (r, w'))"
  by (cases r) (simp_all add: catch_all_def Let_def)

lemma word_body_reaches_cleanup:
  assumes "validate_pdf eng input_pdf w = ((True, m), w1)"
    and "pdf2docx_installed eng"
    and "make_temp eng ''.pdf'' w1 = (Inr temp_pdf_path, w2)"
    and "write_temp_pdf eng input_pdf temp_pdf_path w2 = (Inr True, w3)"
    and "choose_docx eng output_path w3 = (Inr (temp_docx_path, delete_output), w4)"
  shows "PDFToWordConverter_convert_body eng input_pdf output_path start_page end_page w
         = (fst (convert_step eng temp_pdf_path temp_docx_path output_path start_page end_page w4),
            cleanup eng temp_pdf_path temp_docx_path delete_output
              (snd (convert_step eng temp_pdf_path temp_docx_path output_path start_page
                      end_page w4)))"
  using assms
  by (simp add: PDFToWordConverter_convert_body_def split: prod.splits)

text \<open>
  Between the creation of the temporary PDF and the inner \<open>try\<close> nothing guards the file:
  when the temporary DOCX cannot be created, the call fails and the temporary PDF stays.
\<close>

lemma word_temp_pdf_left_behind:
  "fst (PDFToWordConverter_convert full_disk_engine (BytesSrc ''%PDF-one'') None 0 None toy_world)
     = Inr (RPair False (Some (''An error occurred during PDF to Word conversion: ''
                                 @ ''No space left on device'')))
   \<and> files (snd (PDFToWordConverter_convert full_disk_engine (BytesSrc ''%PDF-one'') None 0 None
                    toy_world)) ''/tmp/tmp0.pdf'' = Some ''%PDF-one''"
  by (simp add: word_defs run_defs toy_defs full_disk_engine_def show_nat_small show_nat_Suc)



text \<open>
  When the delegate's \<open>decrypt\<close> does raise, the inner handler of decrypt answers with its
  own message.
\<close>

lemma decrypt_raising_delegate:
  assumes "validate_pdf eng input_pdf w = ((True, m), w1)"
    and "truthy password"
    and "open_reader eng input_pdf w1 = (Inr (Some rd), w2)"
    and "r_is_encrypted rd"
    and "reader_decrypt eng rd password = Inl e"
  shows "decrypt eng input_pdf password output_path w
         = (Inr (RPair False (Some ''Incorrect password or failed to decrypt the PDF'')),
            log_msg ERROR ''Incorrect password or failed to decrypt the PDF'' w2)
       \<and> files w2 = files w"
proof -
  have "w1 = w" using assms(1) by (rule validate_pdf_ok_world)
  have f: "files w2 = files w1"
    using assms(3)
    by (cases input_pdf)
       (auto simp: open_reader_def Let_def log_msg_def seek_def
          split: sum.splits prod.splits option.splits)
  show ?thesis
    using assms f \<open>w1 = w\<close>
    by (simp add: decrypt_def decrypt_body_def catch_all_def)
qed

text \<open>
  On a stream the parser accepts, compress succeeds and the cursor ends where the reader's
  later reads leave it: the pages are read after the cursor was put back.
\<close>

lemma compress_stream_success_cursor:
  "tell 0 readable_world = 3
   \<and> fst (compress toy_engine (StreamSrc 0) None 5 readable_world) = Inr (RBytes ''%PDF-one'')
   \<and> tell 0 (snd (compress toy_engine (StreamSrc 0) None 5 readable_world)) = 8"
  by (simp add: compress_def compress_body_def open_reader_def reader_pages_def save_output_def
      run_defs toy_defs readable_world_def engine_level_def clamp_level_def show_int_def
      PdfWriter_def show_nat_small)

text \<open>Only the mapped level of the delegate's compression is ever consulted by compress.\<close>

lemma show_nat_more:
  "show_nat 6 = ''6''" "show_nat 8 = ''8''" "show_nat 9 = ''9''"
  by code_simp+

lemma read_file_level:
  "read_file (eng\<lparr>compress_content_streams := g\<rparr>) p n w = read_file eng p n w"
  by (simp add: read_file_def)

lemma validate_pdf_mime_level:
  "validate_pdf_mime (eng\<lparr>compress_content_streams := g\<rparr>) b = validate_pdf_mime eng b"
  by (simp add: validate_pdf_mime_def)

lemma validate_pdf_body_level:
  "validate_pdf_body (eng\<lparr>compress_content_streams := g\<rparr>) src w = validate_pdf_body eng src w"
  by (cases src)
     (simp_all add: validate_pdf_body_def read_file_level validate_pdf_mime_level Let_def
        split: prod.splits sum.splits option.splits)

lemma validate_pdf_level:
  "validate_pdf (eng\<lparr>compress_content_streams := g\<rparr>) src w = validate_pdf eng src w"
  by (simp add: validate_pdf_def validate_pdf_body_level)

lemma open_reader_level:
  "open_reader (eng\<lparr>compress_content_streams := g\<rparr>) src w = open_reader eng src w"
  by (cases src)
     (simp_all add: open_reader_def read_file_level Let_def
        split: prod.splits sum.splits option.splits)

lemma reader_pages_level:
  "reader_pages (eng\<lparr>compress_content_streams := g\<rparr>) src rd w = reader_pages eng src rd w"
  by (cases src) (simp_all add: reader_pages_def)

lemma save_output_level:
  "save_output (eng\<lparr>compress_content_streams := g\<rparr>) wr out m1 m2 w
   = save_output eng wr out m1 m2 w"
  by (simp add: save_output_def Let_def split: option.splits sum.splits)

lemma add_page_level:
  "add_page (eng\<lparr>compress_content_streams := g\<rparr>) = add_page eng"
  "replace_images (eng\<lparr>compress_content_streams := g\<rparr>) = replace_images eng"
  "compress_identical_objects (eng\<lparr>compress_content_streams := g\<rparr>)
   = compress_identical_objects eng"
  "compress_content_streams (eng\<lparr>compress_content_streams := g\<rparr>) = g"
  by simp_all

lemma compress_body_level_only:
  "compress_body (eng\<lparr>compress_content_streams :=
                       (\<lambda>given. compress_content_streams eng (engine_level l))\<rparr>) src out l w
   = compress_body eng src out l w"
  unfolding compress_body_def validate_pdf_level open_reader_level reader_pages_level
    save_output_level add_page_level Let_def ..

lemma compress_level_only:
  "compress (eng\<lparr>compress_content_streams :=
                  (\<lambda>given. compress_content_streams eng (engine_level l))\<rparr>) src out l w
   = compress eng src out l w"
  by (simp add: compress_def compress_body_level_only)

section \<open>The claims\<close>

text \<open>
  Claim C1.  Whatever the source (path, stream, bytes or any other shape), the parameters, the
  delegate libraries and the state of the file system, each of the six public operations
  returns: no exception leaves the outer \<open>try\<close>.  The value returned is the destination
  path, a byte buffer, or a tuple whose first component is \<open>False\<close> and whose second
  component is a message string.  Logging is taken not to raise, as the standard
  \<open>logging\<close> module guarantees.
\<close>

theorem operations_return_shaped:
  "(\<exists>v w'. compress eng src out lvl w = (Inr v, w') \<and> well_shaped out v)
   \<and> (\<exists>v w'. merge eng srcs out w = (Inr v, w') \<and> well_shaped out v)
   \<and> (\<exists>v w'. encrypt eng src pw out alg w = (Inr v, w') \<and> well_shaped out v)
   \<and> (\<exists>v w'. decrypt eng src pw out w = (Inr v, w') \<and> well_shaped out v)
   \<and> (\<exists>v w'. PDFToExcelConverter_convert eng src out bs w = (Inr v, w') \<and> well_shaped out v)
   \<and> (\<exists>v w'. PDFToWordConverter_convert eng src out sp ep w = (Inr v, w') \<and> well_shaped out v)"
proof -
  have c: "\<exists>v w'. compress eng src out lvl w = (Inr v, w') \<and> well_shaped out v"
    unfolding compress_def by (rule catch_all_shaped) (rule compress_body_shaped)
  have m: "\<exists>v w'. merge eng srcs out w = (Inr v, w') \<and> well_shaped out v"
    unfolding merge_def by (rule catch_all_shaped) (rule merge_body_shaped)
  have e: "\<exists>v w'. encrypt eng src pw out alg w = (Inr v, w') \<and> well_shaped out v"
    unfolding encrypt_def by (rule catch_all_shaped) (rule encrypt_body_shaped)
  have d: "\<exists>v w'. decrypt eng src pw out w = (Inr v, w') \<and> well_shaped out v"
    unfolding decrypt_def by (rule catch_all_shaped) (rule decrypt_body_shaped)
  have x: "\<exists>v w'. PDFToExcelConverter_convert eng src out bs w = (Inr v, w') \<and> well_shaped out v"
    unfolding PDFToExcelConverter_convert_def by (rule catch_all_shaped) (rule excel_body_shaped)
  have y: "\<exists>v w'. PDFToWordConverter_convert eng src out sp ep w = (Inr v, w') \<and> well_shaped out v"
    unfolding PDFToWordConverter_convert_def by (rule catch_all_shaped) (rule word_body_shaped)
  from c m e d x y show ?thesis by (intro conjI)
qed

text \<open>
  Claim C2.  The compression level is clamped into 1..10 before anything else is done with
  it (so compress behaves on a level exactly as on its clamped value), and the clamped level
  \<open>L\<close> is handed to the delegate as \<open>2 * L\<close> for \<open>L\<close> in 1..4 and as the constant 9
  for \<open>L\<close> in 5..10.  That this mapped level, and no other, is the one the delegate
  receives is stated twice: compress behaves the same when the delegate is replaced by one
  that ignores the level it is given and always works at the mapped level; and on a source that
  is read into a writer, the outcome of compress is that of compressing the content streams of
  every page of the writer at the mapped level, after its images were replaced at quality 60.
\<close>

theorem compress_level_mapping:
  "1 \<le> clamp_level l \<and> clamp_level l \<le> 10
   \<and> clamp_level l = (if l < 1 then 1 else if 10 < l then 10 else l)
   \<and> engine_level l = (if clamp_level l \<in> {1..4} then clamp_level l * 2 else 9)
   \<and> (clamp_level l \<in> {1..4} \<or> clamp_level l \<in> {5..10})
   \<and> compress eng src out l w = compress eng src out (clamp_level l) w
   \<and> compress (eng\<lparr>compress_content_streams :=
                       (\<lambda>given. compress_content_streams eng (engine_level l))\<rparr>) src out l w
       = compress eng src out l w
   \<and> (validate_pdf eng src w = ((True, m), w1)
        \<and> open_reader eng src
              (log_msg DEBUG (''Using compression level: '' @ show_int (engine_level l)) w1)
            = (Inr (Some rd), w3)
        \<and> reader_pages eng src rd w3 = (Inr pages, w4)
        \<and> fold_exn (add_page eng) pages PdfWriter = Inr wr
      \<longrightarrow> compress eng src out l w
            = catch_all ''An error occurred during compression: ''
                (case bind_exn
                        (map_exn (\<lambda>pg. bind_exn (replace_images eng 60 pg)
                                          (compress_content_streams eng (engine_level l)))
                           (w_pages wr))
                        (\<lambda>pgs. compress_identical_objects eng False True (wr\<lparr>w_pages := pgs\<rparr>)) of
                   Inl e \<Rightarrow> (Inl e, w4)
                 | Inr wr' \<Rightarrow>
                     save_output eng wr' out ''Compressed PDF saved to: ''
                       ''PDF compression completed successfully'' w4))"
proof -
  have a: "1 \<le> clamp_level l \<and> clamp_level l \<le> 10" by (simp add: clamp_level_def)
  have b: "clamp_level l = (if l < 1 then 1 else if 10 < l then 10 else l)"
    by (rule clamp_level_cases)
  have c: "engine_level l = (if clamp_level l \<in> {1..4} then clamp_level l * 2 else 9)"
    using a by (simp add: engine_level_def Let_def)
  have d: "clamp_level l \<in> {1..4} \<or> clamp_level l \<in> {5..10}"
    using a by auto
  have e: "compress eng src out l w = compress eng src out (clamp_level l) w"
    by (rule compress_clamp [symmetric])
  have f: "compress (eng\<lparr>compress_content_streams :=
                       (\<lambda>given. compress_content_streams eng (engine_level l))\<rparr>) src out l w
           = compress eng src out l w"
    by (rule compress_level_only)
  have g: "compress eng src out l w
            = catch_all ''An error occurred during compression: ''
                (case bind_exn
                        (map_exn (\<lambda>pg. bind_exn (replace_images eng 60 pg)
                                          (compress_content_streams eng (engine_level l)))
                           (w_pages wr))
                        (\<lambda>pgs. compress_identical_objects eng False True (wr\<lparr>w_pages := pgs\<rparr>)) of
                   Inl e \<Rightarrow> (Inl e, w4)
                 | Inr wr' \<Rightarrow>
                     save_output eng wr' out ''Compressed PDF saved to: ''
                       ''PDF compression completed successfully'' w4)"
    if "validate_pdf eng src w = ((True, m), w1)"
      and "open_reader eng src
              (log_msg DEBUG (''Using compression level: '' @ show_int (engine_level l)) w1)
            = (Inr (Some rd), w3)"
      and "reader_pages eng src rd w3 = (Inr pages, w4)"
      and "fold_exn (add_page eng) pages PdfWriter = Inr wr"
    using that by (simp add: compress_def compress_body_def Let_def bind_exn_def)
  from a b c d e f g show ?thesis by blast
qed

theorem compress_level_mapping_witness:
  "validate_pdf tagging_engine (BytesSrc ''%PDF-one'') toy_world = ((True, None), toy_world)
   \<and> fst (open_reader tagging_engine (BytesSrc ''%PDF-one'')
             (log_msg DEBUG (''Using compression level: '' @ show_int (engine_level 3)) toy_world))
       = Inr (Some \<lparr>r_pages = Inr [''one''], r_is_encrypted = False\<rparr>)
   \<and> fold_exn (add_page tagging_engine) [''one''] PdfWriter
       = Inr \<lparr>w_pages = [''one''], w_encryption = None\<rparr>
   \<and> engine_level 3 = 6
   \<and> fst (compress tagging_engine (BytesSrc ''%PDF-one'') None 3 toy_world)
       = Inr (RBytes ''%PDF-one/L6'')
   \<and> fst (compress tagging_engine (BytesSrc ''%PDF-one'') None 7 toy_world)
       = Inr (RBytes ''%PDF-one/L9'')
   \<and> fst (compress tagging_engine (BytesSrc ''%PDF-one'') None (-4) toy_world)
       = Inr (RBytes ''%PDF-one/L2'')
   \<and> fst (compress tagging_engine (BytesSrc ''%PDF-one'') None 99 toy_world)
       = Inr (RBytes ''%PDF-one/L9'')"
proof -
  let ?S = "BytesSrc ''%PDF-one''"
  let ?rd = "\<lparr>r_pages = Inr [''one''], r_is_encrypted = False\<rparr>"
  let ?wr = "\<lparr>w_pages = [''one''], w_encryption = None\<rparr>"
  let ?w1 = "log_msg DEBUG (''Using compression level: '' @ show_int (engine_level 3)) toy_world"
  let ?w3 = "log_msg INFO ''Reading PDF from bytes'' ?w1"
  have lv: "engine_level 3 = 6" "engine_level 7 = 9" "engine_level (-4) = 2" "engine_level 99 = 9"
    by (simp_all add: engine_level_def clamp_level_def)
  have v: "validate_pdf tagging_engine ?S toy_world = ((True, None), toy_world)"
    by (simp add: run_defs toy_defs tagging_engine_def)
  have o': "fst (open_reader tagging_engine ?S ?w1) = Inr (Some ?rd)"
    by (simp add: open_reader_def toy_defs tagging_engine_def)
  have o: "open_reader tagging_engine ?S ?w1 = (Inr (Some ?rd), ?w3)"
    by (simp add: open_reader_def toy_defs tagging_engine_def)
  have rp: "reader_pages tagging_engine ?S ?rd ?w3 = (Inr [''one''], ?w3)"
    by (simp add: reader_pages_def)
  have fo: "fold_exn (add_page tagging_engine) [''one''] PdfWriter = Inr ?wr"
    by (simp add: toy_defs tagging_engine_def PdfWriter_def bind_exn_def)
  note th = compress_level_mapping [where l = 3 and eng = tagging_engine and src = ?S
        and out = None and w = toy_world and m = None and ?w1.0 = toy_world and rd = ?rd
        and ?w3.0 = ?w3 and pages = "[''one'']" and ?w4.0 = ?w3 and wr = ?wr]
  note path = th [THEN conjunct2, THEN conjunct2, THEN conjunct2, THEN conjunct2,
                  THEN conjunct2, THEN conjunct2, THEN conjunct2, rule_format]
  note res = path [OF conjI [OF v conjI [OF o conjI [OF rp fo]]]]
  have run: "fst (compress tagging_engine ?S None 3 toy_world) = Inr (RBytes ''%PDF-one/L6'')"
    unfolding res
    by (simp add: lv catch_all_def save_output_def bind_exn_def toy_defs tagging_engine_def
        show_int_def show_nat_more)
  have others:
    "fst (compress tagging_engine ?S None 7 toy_world) = Inr (RBytes ''%PDF-one/L9'')"
    "fst (compress tagging_engine ?S None (-4) toy_world) = Inr (RBytes ''%PDF-one/L2'')"
    "fst (compress tagging_engine ?S None 99 toy_world) = Inr (RBytes ''%PDF-one/L9'')"
    by (simp_all add: compress_def compress_body_def open_reader_def reader_pages_def
        save_output_def run_defs toy_defs tagging_engine_def lv show_int_def show_nat_small
        show_nat_more PdfWriter_def)
  from v o' fo lv(1) run others show ?thesis by simp
qed

text \<open>
  Claim C6.  For positive batch sizes the batching is invisible in the outcome: the list of
  extracted tables is the one a single pass over the pages in page order produces (tables of
  one page in detection order), it equals the list obtained with one batch that covers the
  whole document, and convert-to-excel returns the same value and leaves the same files and
  streams for any two positive batch sizes.  Only the progress lines of the log differ.
\<close>

theorem batch_size_independent:
  assumes "0 < b1" and "0 < b2"
  shows "fst (process_batches eng pages b1 0 [] w) = fold_exn (page_step eng) pages []
       \<and> fst (process_batches eng pages b1 0 [] w)
           = fst (process_batches eng pages (int (length pages) + 1) 0 [] w)
       \<and> fst (PDFToExcelConverter_convert eng src out b1 w)
           = fst (PDFToExcelConverter_convert eng src out b2 w)
       \<and> same_but_logs (snd (PDFToExcelConverter_convert eng src out b1 w))
                        (snd (PDFToExcelConverter_convert eng src out b2 w))"
proof -
  have a: "fst (process_batches eng pages b1 0 [] w) = fold_exn (page_step eng) pages []"
    using assms(1) by (simp add: process_batches_fold)
  have b: "fst (process_batches eng pages (int (length pages) + 1) 0 [] w)
             = fold_exn (page_step eng) pages []"
    by (simp add: process_batches_fold)
  note c = excel_body_batch[OF assms, of eng src out w]
  have d: "fst (PDFToExcelConverter_convert eng src out b1 w)
           = fst (PDFToExcelConverter_convert eng src out b2 w)"
    unfolding PDFToExcelConverter_convert_def using c by (intro catch_all_fst) simp
  have e: "same_but_logs (snd (PDFToExcelConverter_convert eng src out b1 w))
                        (snd (PDFToExcelConverter_convert eng src out b2 w))"
    unfolding PDFToExcelConverter_convert_def using c by (intro catch_all_world) simp_all
  from a b d e show ?thesis by simp
qed

theorem batch_size_independent_witness:
  "(0::int) < 1 \<and> (0::int) < 5
   \<and> fst (PDFToExcelConverter_convert toy_engine (PathSrc ''in.pdf'') None 1 toy_world)
       = Inr (RBytes ''xlsx'')
   \<and> fst (PDFToExcelConverter_convert toy_engine (PathSrc ''in.pdf'') None 5 toy_world)
       = Inr (RBytes ''xlsx'')"
  using batch_size_independent [of 1 5 toy_engine "[''one'']" toy_world "PathSrc ''in.pdf''" None]
  by (simp add: excel_defs run_defs toy_defs process_batches.simps)

text \<open>
  Claim C9.  With fewer than two sources, the empty list included, merge returns a failure
  tuple at once: the message says that no files, or fewer than two, were given; the files and
  the streams are left as they were; and the value returned is the same whatever the file
  system, the streams, the delegate libraries and the destination are, so nothing was read.
\<close>

theorem merge_needs_two_inputs:
  assumes "length input_pdfs < 2"
  shows "\<exists>m. merge eng input_pdfs output_path w = (Inr (RPair False (Some m)), log_msg ERROR m w)
           \<and> m = (if input_pdfs = [] then ''No PDF files provided for merging''
                  else ''At least two PDF files are required for merging'')
           \<and> files (snd (merge eng input_pdfs output_path w)) = files w
           \<and> streams (snd (merge eng input_pdfs output_path w)) = streams w
           \<and> fst (merge eng' input_pdfs output_path' w') = fst (merge eng input_pdfs output_path w)"
  using assms by (simp add: merge_def merge_body_def catch_all_def log_msg_def)

theorem merge_needs_two_inputs_witness:
  "length [PathSrc ''in.pdf''] < 2
   \<and> merge toy_engine [PathSrc ''in.pdf''] (Some ''out.pdf'') toy_world
       = (Inr (RPair False (Some ''At least two PDF files are required for merging'')),
          log_msg ERROR ''At least two PDF files are required for merging'' toy_world)
   \<and> files (snd (merge toy_engine [PathSrc ''in.pdf''] (Some ''out.pdf'') toy_world)) ''out.pdf''
       = None"
  using merge_needs_two_inputs [of "[PathSrc ''in.pdf'']" toy_engine "Some ''out.pdf''" toy_world]
  by (simp add: toy_world_def log_msg_def)

text \<open>
  Claim C10.  On a source that validates and that pdfplumber opens, a batch size that is not
  positive makes convert-to-excel fail without looking at any page: a negative batch size
  gives the tuple with the message \<open>No tables found in the PDF\<close>, the batch size 0 makes
  \<open>range\<close> raise and the outer handler turns that into a failure tuple; no file is
  written, and the outcome does not depend on what table extraction would find.
\<close>

theorem nonpositive_batch_size:
  assumes "validate_pdf eng input_pdf w = ((True, m), w1)"
    and "pdfplumber_installed eng"
    and "pdfplumber_open_source eng input_pdf w1 = (Inr (Some pages), w2)"
    and "batch_size \<le> 0"
  shows "fst (PDFToExcelConverter_convert eng input_pdf output_path batch_size w)
           = Inr (RPair False (Some
               (if batch_size < 0 then ''No tables found in the PDF''
                else ''An error occurred during PDF to Excel conversion: ''
                       @ ''range() arg 3 must not be zero'')))
       \<and> files (snd (PDFToExcelConverter_convert eng input_pdf output_path batch_size w))
           = files w2
       \<and> PDFToExcelConverter_convert (eng\<lparr>extract_tables := f\<rparr>) input_pdf output_path
             batch_size w
           = PDFToExcelConverter_convert eng input_pdf output_path batch_size w"
proof -
  have body: "PDFToExcelConverter_convert_body eng input_pdf output_path batch_size w
              = extract_and_save_tables eng pages output_path batch_size w2"
    using assms(1-3) by (simp add: PDFToExcelConverter_convert_body_def)
  have a: "fst (PDFToExcelConverter_convert eng input_pdf output_path batch_size w)
           = Inr (RPair False (Some
               (if batch_size < 0 then ''No tables found in the PDF''
                else ''An error occurred during PDF to Excel conversion: ''
                       @ ''range() arg 3 must not be zero'')))"
    using assms(4)
    by (simp add: PDFToExcelConverter_convert_def body extract_and_save_tables_nonpositive
        catch_all_def Let_def)
  have b: "files (snd (PDFToExcelConverter_convert eng input_pdf output_path batch_size w))
           = files w2"
    using assms(4)
    by (simp add: PDFToExcelConverter_convert_def body extract_and_save_tables_nonpositive
        catch_all_def Let_def log_msg_def)
  have body': "PDFToExcelConverter_convert_body (eng\<lparr>extract_tables := f\<rparr>) input_pdf
                 output_path batch_size w
              = extract_and_save_tables (eng\<lparr>extract_tables := f\<rparr>) pages output_path
                  batch_size w2"
    using assms(1-3)
    by (simp add: PDFToExcelConverter_convert_body_def validate_pdf_extract_tables
        pdfplumber_open_source_extract_tables)
  have c: "PDFToExcelConverter_convert (eng\<lparr>extract_tables := f\<rparr>) input_pdf output_path
             batch_size w
           = PDFToExcelConverter_convert eng input_pdf output_path batch_size w"
    using assms(4)
    by (simp add: PDFToExcelConverter_convert_def body body'
        extract_and_save_tables_nonpositive)
  from a b c show ?thesis by simp
qed

theorem nonpositive_batch_size_witness:
  "validate_pdf toy_engine (PathSrc ''in.pdf'') toy_world = ((True, None), toy_world)
   \<and> pdfplumber_installed toy_engine
   \<and> pdfplumber_open_source toy_engine (PathSrc ''in.pdf'') toy_world
       = (Inr (Some [''one'']), toy_world)
   \<and> extract_tables toy_engine ''one'' = Inr [[[Some ''h''], [Some ''1'']]]
   \<and> (-3::int) \<le> 0 \<and> (0::int) \<le> 0
   \<and> fst (PDFToExcelConverter_convert toy_engine (PathSrc ''in.pdf'') None (-3) toy_world)
       = Inr (RPair False (Some ''No tables found in the PDF''))
   \<and> fst (PDFToExcelConverter_convert toy_engine (PathSrc ''in.pdf'') None 0 toy_world)
       = Inr (RPair False (Some (''An error occurred during PDF to Excel conversion: ''
                                  @ ''range() arg 3 must not be zero'')))"
proof -
  have v: "validate_pdf toy_engine (PathSrc ''in.pdf'') toy_world = ((True, None), toy_world)"
    by (simp add: run_defs toy_defs)
  have i: "pdfplumber_installed toy_engine" by (simp add: toy_defs)
  have p: "pdfplumber_open_source toy_engine (PathSrc ''in.pdf'') toy_world
           = (Inr (Some [''one'']), toy_world)"
    by (simp add: pdfplumber_open_source_def run_defs toy_defs)
  have t: "extract_tables toy_engine ''one'' = Inr [[[Some ''h''], [Some ''1'']]]"
    by (simp add: toy_defs)
  show ?thesis
    using nonpositive_batch_size [OF v i p, of "-3" None]
          nonpositive_batch_size [OF v i p, of 0 None] v i p t
    by simp
qed



text \<open>
  Claim C7, as the code has it.  A source that is neither a path, a stream nor bytes is
  turned away by \<open>validate_pdf\<close>, which every operation calls first, so the message is
  the validator's \<open>Unsupported file type\<close>: compress, encrypt, decrypt and both
  converters return that failure tuple and log it; merge, given at least two inputs of which
  such a source is the first invalid one, returns
  \<open>Validation failed for PDF #n: Unsupported file type\<close>.  Nothing is raised.
\<close>

theorem unsupported_source_rejected:
  "compress eng OtherSrc output_path compression_level w
     = (Inr (RPair False (Some ''Unsupported file type'')),
        log_msg ERROR ''Validation failed: Unsupported file type'' w)
   \<and> encrypt eng OtherSrc password output_path algorithm w
     = (Inr (RPair False (Some ''Unsupported file type'')),
        log_msg ERROR ''Validation failed: Unsupported file type'' w)
   \<and> decrypt eng OtherSrc password output_path w
     = (Inr (RPair False (Some ''Unsupported file type'')),
        log_msg ERROR ''Validation failed: Unsupported file type'' w)
   \<and> PDFToExcelConverter_convert eng OtherSrc output_path batch_size w
     = (Inr (RPair False (Some ''Unsupported file type'')),
        log_msg ERROR ''Validation failed: Unsupported file type'' w)
   \<and> PDFToWordConverter_convert eng OtherSrc output_path start_page end_page w
     = (Inr (RPair False (Some ''Unsupported file type'')),
        log_msg ERROR ''Validation failed: Unsupported file type'' w)
   \<and> (2 \<le> length input_pdfs \<and> i < length input_pdfs \<and> input_pdfs ! i = OtherSrc
        \<and> (\<forall>j<i. fst (fst (validate_pdf eng (input_pdfs ! j) w)))
      \<longrightarrow> merge eng input_pdfs output_path w
            = (Inr (RPair False (Some (''Validation failed for PDF #'' @ show_nat (i + 1)
                                         @ '': Unsupported file type''))),
               log_msg ERROR (''Validation failed for PDF #'' @ show_nat (i + 1)
                                @ '': Unsupported file type'') w))"
proof -
  have c: "compress eng OtherSrc output_path compression_level w
     = (Inr (RPair False (Some ''Unsupported file type'')),
        log_msg ERROR ''Validation failed: Unsupported file type'' w)"
    by (simp add: compress_def compress_body_def validate_pdf_other catch_all_def)
  have e: "encrypt eng OtherSrc password output_path algorithm w
     = (Inr (RPair False (Some ''Unsupported file type'')),
        log_msg ERROR ''Validation failed: Unsupported file type'' w)"
    by (simp add: encrypt_def encrypt_body_def validate_pdf_other catch_all_def)
  have d: "decrypt eng OtherSrc password output_path w
     = (Inr (RPair False (Some ''Unsupported file type'')),
        log_msg ERROR ''Validation failed: Unsupported file type'' w)"
    by (simp add: decrypt_def decrypt_body_def validate_pdf_other catch_all_def)
  have x: "PDFToExcelConverter_convert eng OtherSrc output_path batch_size w
     = (Inr (RPair False (Some ''Unsupported file type'')),
        log_msg ERROR ''Validation failed: Unsupported file type'' w)"
    by (simp add: PDFToExcelConverter_convert_def PDFToExcelConverter_convert_body_def
        validate_pdf_other catch_all_def)
  have y: "PDFToWordConverter_convert eng OtherSrc output_path start_page end_page w
     = (Inr (RPair False (Some ''Unsupported file type'')),
        log_msg ERROR ''Validation failed: Unsupported file type'' w)"
    by (simp add: PDFToWordConverter_convert_def PDFToWordConverter_convert_body_def
        validate_pdf_other catch_all_def)
  have m: "merge eng input_pdfs output_path w
            = (Inr (RPair False (Some (''Validation failed for PDF #'' @ show_nat (i + 1)
                                         @ '': Unsupported file type''))),
               log_msg ERROR (''Validation failed for PDF #'' @ show_nat (i + 1)
                                @ '': Unsupported file type'') w)"
    if h: "2 \<le> length input_pdfs" "i < length input_pdfs" "input_pdfs ! i = OtherSrc"
          "\<forall>j<i. fst (fst (validate_pdf eng (input_pdfs ! j) w))"
  proof -
    have v: "validate_pdf eng (input_pdfs ! i) w = ((False, Some ''Unsupported file type''), w)"
      using h(3) by (simp add: validate_pdf_other)
    have "validate_all eng input_pdfs 0 w = (Some (i, Some ''Unsupported file type''), w)"
      using validate_all_first_invalid[OF h(2) h(4) v, of 0] by simp
    from merge_first_invalid[OF h(1) this, of output_path] show ?thesis by simp
  qed
  from c e d x y m show ?thesis by blast
qed

theorem unsupported_source_rejected_witness:
  "2 \<le> length [BytesSrc ''%PDF-a'', OtherSrc] \<and> (1::nat) < length [BytesSrc ''%PDF-a'', OtherSrc]
   \<and> [BytesSrc ''%PDF-a'', OtherSrc] ! 1 = OtherSrc
   \<and> fst (fst (validate_pdf toy_engine ([BytesSrc ''%PDF-a'', OtherSrc] ! 0) toy_world))
   \<and> merge toy_engine [BytesSrc ''%PDF-a'', OtherSrc] None toy_world
       = (Inr (RPair False (Some ''Validation failed for PDF #2: Unsupported file type'')),
          log_msg ERROR ''Validation failed for PDF #2: Unsupported file type'' toy_world)
   \<and> fst (compress toy_engine OtherSrc None 5 toy_world)
       = Inr (RPair False (Some ''Unsupported file type''))"
proof -
  have v0: "validate_pdf toy_engine (BytesSrc ''%PDF-a'') toy_world = ((True, None), toy_world)"
    by (simp add: run_defs toy_defs)
  have p: "\<forall>j<1. fst (fst (validate_pdf toy_engine ([BytesSrc ''%PDF-a'', OtherSrc] ! j) toy_world))"
    using v0 by simp
  show ?thesis
    using unsupported_source_rejected [where eng = toy_engine and w = toy_world
        and output_path = None and compression_level = 5
        and input_pdfs = "[BytesSrc ''%PDF-a'', OtherSrc]" and i = 1] p v0
    by (simp add: show_nat_Suc)
qed

text \<open>
  The message the claim names is not the one returned: at a source of unsupported shape the
  validator answers first, with its own wording.
\<close>

theorem unsupported_source_counterexample:
  "fst (compress toy_engine OtherSrc None 5 toy_world)
     \<noteq> Inr (RPair False (Some ''Unsupported input type''))"
  by (simp add: compress_def compress_body_def validate_pdf_other catch_all_def)

text \<open>
  Claim C8, at an input where the code departs from it.  The document is encrypted and the
  password \<open>guess\<close> is wrong.  The delegate's \<open>decrypt\<close> does not raise on a wrong password,
  and the code does not look at what it returns, so the inner handler with the message
  \<open>Incorrect password or failed to decrypt the PDF\<close> is passed by; the locked pages raise
  next, and the outer handler turns that into its own failure tuple.  With the right password
  the same call succeeds.
\<close>

theorem decrypt_wrong_password_not_reported:
  "fst (decrypt encrypted_engine (BytesSrc ''%PDF-one'') (Some ''guess'') None toy_world)
     = Inr (RPair False (Some (''An error occurred during decryption: ''
                                 @ ''File has not been decrypted'')))
   \<and> fst (decrypt encrypted_engine (BytesSrc ''%PDF-one'') (Some ''guess'') None toy_world)
     \<noteq> Inr (RPair False (Some ''Incorrect password or failed to decrypt the PDF''))
   \<and> fst (decrypt encrypted_engine (BytesSrc ''%PDF-one'') (Some ''secret'') None toy_world)
     = Inr (RBytes ''%PDF-one'')"
  by (simp add: decrypt_def decrypt_body_def open_reader_def reader_pages_def save_output_def
      run_defs toy_defs encrypted_engine_def PdfWriter_def)

text \<open>
  Claim C3, at an input where the code departs from it.  The stream holds the twelve bytes
  \<open>%PDF-corrupt\<close>, which pass the content check and which the parser rejects, and its
  cursor is at 3.  \<open>validate_pdf\<close> restores the cursor; compress then seeks to 0, the
  reader raises, the line \<open>input_pdf.seek(current_pos)\<close> is skipped, and the handler
  returns the failure tuple with the cursor where the reader left it, here at 0.
\<close>

theorem compress_stream_cursor_not_restored:
  "tell 0 toy_world = 3
   \<and> fst (compress toy_engine (StreamSrc 0) None 5 toy_world)
       = Inr (RPair False (Some ''An error occurred during compression: EOF marker not found''))
   \<and> tell 0 (snd (compress toy_engine (StreamSrc 0) None 5 toy_world)) = 0
   \<and> tell 0 (snd (compress toy_engine (StreamSrc 0) None 5 toy_world)) \<noteq> tell 0 toy_world"
  by (simp add: compress_def compress_body_def open_reader_def run_defs toy_defs engine_level_def
      clamp_level_def show_int_def)

text \<open>
  Claim C4, as the code has it.  Once convert-to-word has written the temporary PDF and settled
  the destination, it reaches the conversion inside \<open>try ... finally\<close>, and whatever the
  conversion does (return or raise) the \<open>finally\<close> block runs: the temporary PDF is gone
  afterwards unless its removal is refused, and so is the temporary DOCX, which exists exactly
  when no destination path was given.  A refused removal is swallowed by \<open>except: pass\<close>:
  it changes neither the value returned nor the log, so the call ends exactly as the
  conversion step under the outer handler ends.
\<close>

theorem word_cleanup:
  assumes "validate_pdf eng input_pdf w = ((True, m), w1)"
    and "pdf2docx_installed eng"
    and "make_temp eng ''.pdf'' w1 = (Inr temp_pdf_path, w2)"
    and "write_temp_pdf eng input_pdf temp_pdf_path w2 = (Inr True, w3)"
    and "choose_docx eng output_path w3 = (Inr (temp_docx_path, delete_output), w4)"
  shows "(remove_error eng temp_pdf_path = None \<longrightarrow>
            files (snd (PDFToWordConverter_convert eng input_pdf output_path start_page end_page w))
              temp_pdf_path = None)
       \<and> (delete_output \<and> remove_error eng temp_docx_path = None \<longrightarrow>
            files (snd (PDFToWordConverter_convert eng input_pdf output_path start_page end_page w))
              temp_docx_path = None)
       \<and> delete_output = (\<not> truthy output_path)
       \<and> fst (PDFToWordConverter_convert (eng\<lparr>remove_error := f\<rparr>) input_pdf output_path
                 start_page end_page w)
           = fst (PDFToWordConverter_convert eng input_pdf output_path start_page end_page w)
       \<and> (remove_error eng temp_pdf_path \<noteq> None
            \<and> (delete_output \<longrightarrow> remove_error eng temp_docx_path \<noteq> None) \<longrightarrow>
            PDFToWordConverter_convert eng input_pdf output_path start_page end_page w
            = catch_all ''An error occurred during PDF to Word conversion: ''
                (convert_step eng temp_pdf_path temp_docx_path output_path start_page end_page
                   w4))"
proof -
  let ?pfx = "''An error occurred during PDF to Word conversion: ''"
  let ?step = "convert_step eng temp_pdf_path temp_docx_path output_path start_page end_page w4"
  let ?eng' = "eng\<lparr>remove_error := f\<rparr>"
  have conv: "PDFToWordConverter_convert eng input_pdf output_path start_page end_page w
              = catch_all ?pfx (fst ?step,
                  cleanup eng temp_pdf_path temp_docx_path delete_output (snd ?step))"
    unfolding PDFToWordConverter_convert_def
    by (simp add: word_body_reaches_cleanup[OF assms])
  have assms': "validate_pdf ?eng' input_pdf w = ((True, m), w1)"
      "pdf2docx_installed ?eng'"
      "make_temp ?eng' ''.pdf'' w1 = (Inr temp_pdf_path, w2)"
      "write_temp_pdf ?eng' input_pdf temp_pdf_path w2 = (Inr True, w3)"
      "choose_docx ?eng' output_path w3 = (Inr (temp_docx_path, delete_output), w4)"
    using assms
    by (simp_all add: validate_pdf_remove_error make_temp_remove_error
        write_temp_pdf_remove_error choose_docx_remove_error)
  have conv': "PDFToWordConverter_convert ?eng' input_pdf output_path start_page end_page w
              = catch_all ?pfx (fst ?step,
                  cleanup ?eng' temp_pdf_path temp_docx_path delete_output (snd ?step))"
    unfolding PDFToWordConverter_convert_def
    by (simp add: word_body_reaches_cleanup[OF assms'] convert_step_remove_error)
  have a: "remove_error eng temp_pdf_path = None \<longrightarrow>
            files (snd (PDFToWordConverter_convert eng input_pdf output_path start_page end_page w))
              temp_pdf_path = None"
    by (simp add: conv catch_all_files cleanup_files_pdf)
  have b: "delete_output \<and> remove_error eng temp_docx_path = None \<longrightarrow>
            files (snd (PDFToWordConverter_convert eng input_pdf output_path start_page end_page w))
              temp_docx_path = None"
    by (simp add: conv catch_all_files cleanup_files_docx)
  have c: "delete_output = (\<not> truthy output_path)"
    using assms(5) by (auto simp: choose_docx_def split: if_splits prod.splits sum.splits)
  have d: "fst (PDFToWordConverter_convert ?eng' input_pdf output_path start_page end_page w)
           = fst (PDFToWordConverter_convert eng input_pdf output_path start_page end_page w)"
    unfolding conv conv' by (rule catch_all_fst_pair)
  have e: "remove_error eng temp_pdf_path \<noteq> None
            \<and> (delete_output \<longrightarrow> remove_error eng temp_docx_path \<noteq> None) \<longrightarrow>
            PDFToWordConverter_convert eng input_pdf output_path start_page end_page w
            = catch_all ?pfx ?step"
  proof (intro impI, elim conjE)
    assume h: "remove_error eng temp_pdf_path \<noteq> None"
      "delete_output \<longrightarrow> remove_error eng temp_docx_path \<noteq> None"
    then have "cleanup eng temp_pdf_path temp_docx_path delete_output (snd ?step) = snd ?step"
      by (intro cleanup_silent) auto
    then show "PDFToWordConverter_convert eng input_pdf output_path start_page end_page w
               = catch_all ?pfx ?step"
      by (simp add: conv)
  qed
  from a b c d e show ?thesis by blast
qed

theorem word_cleanup_witness:
  "validate_pdf toy_engine (BytesSrc ''%PDF-one'') toy_world = ((True, None), toy_world)
   \<and> pdf2docx_installed toy_engine
   \<and> fst (make_temp toy_engine ''.pdf'' toy_world) = Inr ''/tmp/tmp0.pdf''
   \<and> remove_error toy_engine ''/tmp/tmp0.pdf'' = None
   \<and> remove_error toy_engine ''/tmp/tmp1.docx'' = None
   \<and> fst (PDFToWordConverter_convert toy_engine (BytesSrc ''%PDF-one'') None 0 None toy_world)
       = Inr (RBytes ''docx:one'')
   \<and> files (snd (PDFToWordConverter_convert toy_engine (BytesSrc ''%PDF-one'') None 0 None
                    toy_world)) ''/tmp/tmp0.pdf'' = None
   \<and> files (snd (PDFToWordConverter_convert toy_engine (BytesSrc ''%PDF-one'') None 0 None
                    toy_world)) ''/tmp/tmp1.docx'' = None
   \<and> remove_error sticky_engine ''/tmp/tmp0.pdf'' \<noteq> None
   \<and> fst (PDFToWordConverter_convert sticky_engine (BytesSrc ''%PDF-one'') None 0 None toy_world)
       = Inr (RBytes ''docx:one'')"
proof -
  let ?S = "BytesSrc ''%PDF-one''"
  let ?tp = "''/tmp/tmp0.pdf''"
  let ?td = "''/tmp/tmp1.docx''"
  have v: "validate_pdf toy_engine ?S toy_world = ((True, None), toy_world)"
    by (simp add: run_defs toy_defs)
  have i: "pdf2docx_installed toy_engine" by (simp add: toy_defs)
  let ?w2 = "snd (make_temp toy_engine ''.pdf'' toy_world)"
  have t: "make_temp toy_engine ''.pdf'' toy_world = (Inr ?tp, ?w2)"
    by (simp add: make_temp_def toy_defs show_nat_small)
  let ?w3 = "snd (write_temp_pdf toy_engine ?S ?tp ?w2)"
  have wr: "write_temp_pdf toy_engine ?S ?tp ?w2 = (Inr True, ?w3)"
    by (simp add: write_temp_pdf_def temp_write_def toy_defs)
  let ?w4 = "snd (choose_docx toy_engine None ?w3)"
  have ch: "choose_docx toy_engine None ?w3 = (Inr (?td, True), ?w4)"
    by (simp add: choose_docx_def make_temp_def write_temp_pdf_def temp_write_def toy_defs
        show_nat_small show_nat_Suc)
  have r: "remove_error toy_engine ?tp = None" "remove_error toy_engine ?td = None"
    by (simp_all add: toy_defs)
  have s: "remove_error sticky_engine ?tp \<noteq> None"
    by (simp add: sticky_engine_def toy_defs)
  have e: "fst (PDFToWordConverter_convert toy_engine ?S None 0 None toy_world)
           = Inr (RBytes ''docx:one'')"
    by (simp add: word_defs run_defs toy_defs show_nat_small show_nat_Suc)
  have k: "sticky_engine = toy_engine\<lparr>remove_error := (\<lambda>p. Some (PyException ''Permission denied''))\<rparr>"
    by (simp add: sticky_engine_def)
  have t': "fst (make_temp toy_engine ''.pdf'' toy_world) = Inr ?tp"
    by (simp add: make_temp_def toy_defs show_nat_small)
  show ?thesis
    using word_cleanup [OF v i t wr ch, of 0 None "\<lambda>p. Some (PyException ''Permission denied'')"]
      v i t' r s e k
    by simp
qed

text \<open>
  Where the claim as worded fails: every removal is refused, the call still succeeds, the
  temporary PDF is still on disk afterwards, and the log holds the two lines of the conversion
  only, with no entry for the removal that failed.
\<close>

theorem word_cleanup_counterexample:
  "fst (PDFToWordConverter_convert sticky_engine (BytesSrc ''%PDF-one'') (Some ''out.docx'') 0 None
          toy_world) = Inr (RPath ''out.docx'')
   \<and> files (snd (PDFToWordConverter_convert sticky_engine (BytesSrc ''%PDF-one'')
                    (Some ''out.docx'') 0 None toy_world)) ''/tmp/tmp0.pdf'' = Some ''%PDF-one''
   \<and> logs (snd (PDFToWordConverter_convert sticky_engine (BytesSrc ''%PDF-one'')
                    (Some ''out.docx'') 0 None toy_world))
       = [(INFO, ''Converting PDF to Word (pages 0 to end)''),
          (INFO, ''Word file saved to: out.docx'')]"
  by (simp add: word_defs run_defs toy_defs sticky_engine_def show_nat_small)

end
